theory Spec2Isabelle
  imports Complex_Main "HOL-Library.Product_Lexorder"
begin

section \<open>Conventions of the embedding\<close>

text \<open>
  The repository is a chain of single-shot Python scripts over CSV files. Each script is
  embedded as a function from the files it reads (and the external collaborators it calls)
  to a record of what it printed as a warning, what it wrote, and the exception that ended
  it, if any.

  \<^item> A finite floating-point number is a \<open>real\<close>: rounding is not modelled. A missing cell
    (pandas NaN, NaT or None) is \<open>None\<close>. Infinities are modelled only where the source's own
    arithmetic produces them from finite numbers, which is the division of \<open>pct_change\<close>.
  \<^item> A calendar date is a triple (year, month, day) ordered lexicographically, which is the
    chronological order.
  \<^item> External library calls whose result the claims do not depend on (the FinBERT model,
    the timestamp parser) are parameters of the functions that call them.
\<close>

type_synonym date = "nat \<times> nat \<times> nat"

datatype error =
    FileNotFoundError
  | HeadlineKeyError "string list" "string list"
  | KeyError string
  | ColumnKeyError "string list"
  | ValueError string
  | IndexError

text \<open>
  \<open>HeadlineKeyError\<close> is the \<open>KeyError\<close> of \<open>find_headline_column\<close>, carrying the two lists its
  message is formatted from; \<open>KeyError\<close> is a \<open>raise KeyError(msg)\<close> of the source with a constant
  message; \<open>ColumnKeyError cs\<close> is the \<open>KeyError\<close> pandas raises when the columns \<open>cs\<close> are selected from
  a frame that does not have it.
\<close>

record 'a run =
  warned :: "string list"
  written :: "'a list"
  raised :: "error option"

definition returned :: "string list \<Rightarrow> 'a list \<Rightarrow> 'a run" where
  "returned ws fs = \<lparr>warned = ws, written = fs, raised = None\<rparr>"

definition aborted :: "string list \<Rightarrow> error \<Rightarrow> 'a run" where
  "aborted ws e = \<lparr>warned = ws, written = [], raised = Some e\<rparr>"

section \<open>sentiment_finbert.py\<close>

definition HEADLINE_COL_CANDIDATES :: "string list" where
  "HEADLINE_COL_CANDIDATES = [''HEADLINE'', ''headline'', ''Title'', ''title'']"

definition BATCH_SIZE :: int where
  "BATCH_SIZE = 16"

text \<open>A frame as \<open>read_csv\<close> returns it: the header and, for each row, its cells by column name.\<close>

record csv_frame =
  columns :: "string list"
  rows :: "(string \<rightharpoonup> string) list"

fun first_present :: "string list \<Rightarrow> string list \<Rightarrow> string option" where
  "first_present [] cols = None"
| "first_present (col # rest) cols =
     (if col \<in> set cols then Some col else first_present rest cols)"

definition find_headline_column :: "string list \<Rightarrow> error + string" where
  "find_headline_column cols =
     (case first_present HEADLINE_COL_CANDIDATES cols of
        Some col \<Rightarrow> Inr col
      | None \<Rightarrow> Inl (HeadlineKeyError HEADLINE_COL_CANDIDATES cols))"

text \<open>
  \<open>chunked\<close>: the loop \<open>for i in range(0, len(iterable), size): yield iterable[i:i + size]\<close>.
  \<open>chunks_from\<close> is the loop from index \<open>i\<close> on, for a positive step (\<open>sz\<close> is the
  source's \<open>size\<close>). \<open>range\<close> raises on a
  zero step and is empty for a negative one.
\<close>

function chunks_from :: "'a list \<Rightarrow> nat \<Rightarrow> nat \<Rightarrow> 'a list list" where
  "chunks_from xs sz i =
     (if sz = 0 \<or> length xs \<le> i then []
      else take sz (drop i xs) # chunks_from xs sz (i + sz))"
  by pat_completeness auto
termination
  by (relation "measure (\<lambda>(xs, sz, i). length xs - i)") auto

declare chunks_from.simps [simp del]

definition chunked :: "'a list \<Rightarrow> int \<Rightarrow> error + 'a list list" where
  "chunked xs sz =
     (if sz = 0 then Inl (ValueError ''range() arg 3 must not be zero'')
      else if sz < 0 then Inr []
      else Inr (chunks_from xs (nat sz) 0))"

text \<open>
  The loaded model: \<open>infer\<close> is tokenizer, forward pass and softmax on one batch, giving
  one row of class probabilities per text, or the exception of the call; the three indices
  are the ones \<open>load_finbert\<close> resolved.
\<close>

record finbert =
  infer :: "string list \<Rightarrow> error + real list list"
  pos_idx :: nat
  neg_idx :: nat
  neu_idx :: nat

text \<open>\<open>probs[:, idx]\<close>: the column of a matrix, an \<open>IndexError\<close> when the matrix is narrower.\<close>

definition column :: "real list list \<Rightarrow> nat \<Rightarrow> error + real list" where
  "column probs idx =
     (if list_all (\<lambda>row. idx < length row) probs then Inr (map (\<lambda>row. row ! idx) probs)
      else Inl IndexError)"

fun score_batches ::
  "finbert \<Rightarrow> string list list \<Rightarrow> real list \<times> real list \<times> real list
     \<Rightarrow> error + real list \<times> real list \<times> real list" where
  "score_batches m [] acc = Inr acc"
| "score_batches m (batch # rest) (all_pos, all_neg, all_neu) =
     (case infer m batch of
        Inl e \<Rightarrow> Inl e
      | Inr probs \<Rightarrow>
          (case column probs (pos_idx m) of
             Inl e \<Rightarrow> Inl e
           | Inr ps \<Rightarrow>
               (case column probs (neg_idx m) of
                  Inl e \<Rightarrow> Inl e
                | Inr ns \<Rightarrow>
                    (case column probs (neu_idx m) of
                       Inl e \<Rightarrow> Inl e
                     | Inr us \<Rightarrow>
                         score_batches m rest (all_pos @ ps, all_neg @ ns, all_neu @ us)))))"

definition score_with_finbert ::
  "finbert \<Rightarrow> string list \<Rightarrow> error + real list \<times> real list \<times> real list" where
  "score_with_finbert m texts =
     (case chunked texts BATCH_SIZE of
        Inl e \<Rightarrow> Inl e
      | Inr batches \<Rightarrow> score_batches m batches ([], [], []))"

text \<open>
  \<open>strftime("%d/%m/%Y")\<close>: day and month zero-padded to two digits, the year in four (the
  years a pandas timestamp can hold have four digits).
\<close>

definition digit_char :: "nat \<Rightarrow> char" where
  "digit_char n = ''0123456789'' ! (n mod 10)"

definition zero_pad2 :: "nat \<Rightarrow> string" where
  "zero_pad2 n = [digit_char (n div 10), digit_char n]"

definition zero_pad4 :: "nat \<Rightarrow> string" where
  "zero_pad4 n = [digit_char (n div 1000), digit_char (n div 100), digit_char (n div 10), digit_char n]"

fun strftime_dmy :: "date \<Rightarrow> string" where
  "strftime_dmy (y, m, d) = zero_pad2 d @ ''/'' @ zero_pad2 m @ ''/'' @ zero_pad4 y"

text \<open>
  \<open>add_date_from_timestamp\<close>. The parameter is \<open>pd.to_datetime(col, errors="coerce", utc=True)\<close>
  followed by \<open>.dt.date\<close>: the UTC date of each timestamp cell, \<open>None\<close> where it does not parse.
  The result is the warning printed, if any, and the kept rows with their \<open>DATE\<close> string.
\<close>

definition add_date_from_timestamp ::
  "(string option list \<Rightarrow> date option list) \<Rightarrow> csv_frame
     \<Rightarrow> error + string list \<times> ((string \<rightharpoonup> string) \<times> string) list" where
  "add_date_from_timestamp to_datetime_utc df =
     (if ''TIMESTAMP'' \<notin> set (columns df)
      then Inl (KeyError ''TIMESTAMP column not found in news file; cannot derive DATE.'')
      else
        let ts = to_datetime_utc (map (\<lambda>r. r ''TIMESTAMP'') (rows df));
            dated = zip (rows df) ts;
            bad = length (filter (\<lambda>(r, d). d = None) dated);
            kept = List.map_filter (\<lambda>(r, d). map_option (\<lambda>d. (r, strftime_dmy d)) d) dated
        in Inr (if bad > 0 then [''Dropping rows with invalid TIMESTAMP.''] else [], kept))"

definition finbert_score :: "real \<Rightarrow> real \<Rightarrow> real" where
  "finbert_score pos neg = pos - neg"

definition finbert_label :: "real \<Rightarrow> string" where
  "finbert_label x =
     (if x > 5 / 100 then ''positive'' else (if x < - (5 / 100) then ''negative'' else ''neutral''))"

record scored_row =
  cells :: "string \<rightharpoonup> string"
  DATE :: string
  FINBERT_POS :: real
  FINBERT_NEG :: real
  FINBERT_NEU :: real
  FINBERT_SCORE :: real
  FINBERT_LABEL :: string

datatype 'a artifact = Csv 'a | Plot 'a

record scorer_env =
  INPUT_CSV :: "csv_frame option"
  to_datetime_utc :: "string option list \<Rightarrow> date option list"
  load_finbert :: "error + finbert"

text \<open>
  \<open>main\<close> of the scorer. \<open>INPUT_CSV\<close> is \<open>None\<close> when the file does not exist. \<open>astype(str)\<close>
  leaves a text cell as it is and turns a missing one into \<open>nan\<close>. Assigning a list to a
  column raises when its length is not the number of rows.
\<close>

definition add_sentiment_columns ::
  "((string \<rightharpoonup> string) \<times> string) \<times> real \<times> real \<times> real \<Rightarrow> scored_row" where
  "add_sentiment_columns = (\<lambda>((r, d), p, n, u).
     \<lparr>cells = r, DATE = d, FINBERT_POS = p, FINBERT_NEG = n, FINBERT_NEU = u,
      FINBERT_SCORE = finbert_score p n, FINBERT_LABEL = finbert_label (finbert_score p n)\<rparr>)"

definition scorer_main :: "scorer_env \<Rightarrow> scored_row list artifact run" where
  "scorer_main env =
     (case INPUT_CSV env of
        None \<Rightarrow> aborted [] FileNotFoundError
      | Some df0 \<Rightarrow>
          (case find_headline_column (columns df0) of
             Inl e \<Rightarrow> aborted [] e
           | Inr headline_col \<Rightarrow>
               let df = df0\<lparr>rows := filter (\<lambda>r. r headline_col \<noteq> None) (rows df0)\<rparr> in
               if rows df = [] then returned [''No headlines found after dropping empty rows.''] []
               else
                 (case add_date_from_timestamp (to_datetime_utc env) df of
                    Inl e \<Rightarrow> aborted [] e
                  | Inr (ws, dated) \<Rightarrow>
                      (case load_finbert env of
                         Inl e \<Rightarrow> aborted ws e
                       | Inr m \<Rightarrow>
                           let headlines =
                                 map (\<lambda>(r, d). case r headline_col of Some h \<Rightarrow> h | None \<Rightarrow> ''nan'') dated
                           in
                           (case score_with_finbert m headlines of
                              Inl e \<Rightarrow> aborted ws e
                            | Inr (pos, neg, neu) \<Rightarrow>
                                if length pos \<noteq> length dated \<or> length neg \<noteq> length dated
                                   \<or> length neu \<noteq> length dated
                                then aborted ws (ValueError ''Length of values does not match length of index'')
                                else returned ws
                                  [Csv (map add_sentiment_columns (zip dated (zip pos (zip neg neu))))])))))"

section \<open>build_panel.py\<close>

text \<open>
  The scored-news file as \<open>read_csv\<close> returns it, with the cells of the columns that
  \<open>load_news\<close> reads. A missing score is the NaN that \<open>mean\<close> and \<open>count\<close> skip.
\<close>

record scored_cells =
  c_DATE :: "string option"
  c_FINBERT_SCORE :: "real option"
  c_FINBERT_LABEL :: "string option"

record scored_file =
  sf_columns :: "string list"
  sf_rows :: "scored_cells list"

record daily_row =
  d_DATE :: date
  DAILY_SENTIMENT :: "real option"
  NUM_HEADLINES :: nat
  POS_SHARE :: "real option"
  NEG_SHARE :: "real option"

definition sentiment_cols :: "string list" where
  "sentiment_cols = [''DATE'', ''FINBERT_SCORE'', ''FINBERT_LABEL'',
                     ''FINBERT_POS'', ''FINBERT_NEG'', ''FINBERT_NEU'']"

text \<open>
  The aggregations of \<open>groupby("DATE").agg(...)\<close>: \<open>mean\<close> over the scores that are present
  (NaN when there is none), \<open>count\<close> of the scores that are present, and the mean of the
  boolean column \<open>x == label\<close> over all rows of the group (NaN on no rows).
\<close>

definition mean_skipna :: "real option list \<Rightarrow> real option" where
  "mean_skipna xs =
     (let vs = List.map_filter id xs
      in if vs = [] then None else Some (sum_list vs / real (length vs)))"

definition count_valid :: "real option list \<Rightarrow> nat" where
  "count_valid xs = length (List.map_filter id xs)"

definition label_share :: "string \<Rightarrow> string option list \<Rightarrow> real option" where
  "label_share lab xs =
     (if xs = [] then None
      else Some (real (length (filter (\<lambda>x. x = Some lab) xs)) / real (length xs)))"

text \<open>
  \<open>groupby\<close> with its defaults (\<open>sort=True\<close>, \<open>dropna=True\<close>): one group per distinct key that
  is not missing, in increasing key order.
\<close>

definition group_keys :: "date option list \<Rightarrow> date list" where
  "group_keys ds = sort (remdups (List.map_filter id ds))"

definition group_of :: "(date option \<times> scored_cells) list \<Rightarrow> date \<Rightarrow> scored_cells list" where
  "group_of dated d = map snd (filter (\<lambda>(k, r). k = Some d) dated)"

definition aggregate :: "(date option \<times> scored_cells) list \<Rightarrow> date \<Rightarrow> daily_row" where
  "aggregate dated d =
     (let g = group_of dated d in
      \<lparr>d_DATE = d,
       DAILY_SENTIMENT = mean_skipna (map c_FINBERT_SCORE g),
       NUM_HEADLINES = count_valid (map c_FINBERT_SCORE g),
       POS_SHARE = label_share ''positive'' (map c_FINBERT_LABEL g),
       NEG_SHARE = label_share ''negative'' (map c_FINBERT_LABEL g)\<rparr>)"

text \<open>
  \<open>load_news\<close>. The parameter is \<open>pd.to_datetime(col, errors="coerce")\<close> followed by
  \<open>.dt.date\<close> on the \<open>DATE\<close> column; \<open>None\<close> for the file is a file that does not exist.
\<close>

definition load_news ::
  "(string option list \<Rightarrow> date option list) \<Rightarrow> scored_file option \<Rightarrow> error + daily_row list" where
  "load_news to_datetime file =
     (case file of
        None \<Rightarrow> Inl FileNotFoundError
      | Some df \<Rightarrow>
          if ''DATE'' \<notin> set (sf_columns df)
          then Inl (KeyError ''FinBERT file must contain DATE column.'')
          else
            let dates = to_datetime (map c_DATE (sf_rows df));
                missing = filter (\<lambda>c. c \<notin> set (sf_columns df)) sentiment_cols
            in if missing \<noteq> [] then Inl (ColumnKeyError missing)
               else Inr (map (aggregate (zip dates (sf_rows df))) (group_keys dates)))"

text \<open>
  A float as the division of \<open>pct_change\<close> can leave it: NaN, a finite number, or an
  infinity (the sign of a zero is not modelled: a zero divisor counts as positive).
\<close>

datatype fval = NaN | Fin real | PInf | NInf

fun fdiv :: "real \<Rightarrow> real \<Rightarrow> fval" where
  "fdiv a b =
     (if b \<noteq> 0 then Fin (a / b)
      else if a > 0 then PInf else if a < 0 then NInf else NaN)"

fun fsub1 :: "fval \<Rightarrow> fval" where
  "fsub1 NaN = NaN"
| "fsub1 (Fin x) = Fin (x - 1)"
| "fsub1 PInf = PInf"
| "fsub1 NInf = NInf"

text \<open>
  \<open>pct_change\<close> on a column without missing entries: \<open>data / data.shift(1) - 1\<close>, the first
  entry divided by the NaN that \<open>shift\<close> puts in front.
\<close>

fun pct_change :: "real list \<Rightarrow> fval list" where
  "pct_change [] = []"
| "pct_change (c # cs) = NaN # map (\<lambda>(prev, cur). fsub1 (fdiv cur prev)) (zip (c # cs) cs)"

text \<open>
  The price file with the cells of the columns that \<open>load_prices\<close> computes with; the close
  is the column named \<open>TRDPRC_1\<close> in the file (or already \<open>CLOSE\<close>).
\<close>

record price_cells =
  p_TIMESTAMP :: "string option"
  p_CLOSE :: real

record price_file =
  pf_columns :: "string list"
  pf_rows :: "price_cells list"

record price_row =
  pr_DATE :: "date option"
  pr_CLOSE :: real
  pr_RETURN :: fval

definition rename_column :: "string \<Rightarrow> string" where
  "rename_column c =
     (if c = ''TRDPRC_1'' then ''CLOSE''
      else if c = ''HIGH_1'' then ''HIGH''
      else if c = ''LOW_1'' then ''LOW''
      else if c = ''OPEN_PRC'' then ''OPEN''
      else if c = ''ACVOL_UNS'' then ''VOLUME''
      else c)"

text \<open>
  \<open>sort_values("DATE")\<close>: increasing dates, rows without a date last. pandas does not fix the
  order of rows with equal dates; the model keeps them in their order.
\<close>

definition sort_values_DATE :: "('r \<Rightarrow> date option) \<Rightarrow> 'r list \<Rightarrow> 'r list" where
  "sort_values_DATE key rs =
     map snd (sort_key fst (List.map_filter (\<lambda>r. map_option (\<lambda>d. (d, r)) (key r)) rs))
     @ filter (\<lambda>r. key r = None) rs"

definition load_prices ::
  "(string option list \<Rightarrow> date option list) \<Rightarrow> price_file option \<Rightarrow> error + price_row list" where
  "load_prices to_datetime file =
     (case file of
        None \<Rightarrow> Inl FileNotFoundError
      | Some df \<Rightarrow>
          if ''TIMESTAMP'' \<notin> set (pf_columns df) then Inl (ColumnKeyError [''TIMESTAMP''])
          else
            let dates = to_datetime (map p_TIMESTAMP (pf_rows df));
                sorted = sort_values_DATE fst (zip dates (pf_rows df))
            in if ''CLOSE'' \<notin> set (map rename_column (pf_columns df))
               then Inl (ColumnKeyError [''CLOSE''])
               else Inr (map (\<lambda>((d, r), ret). \<lparr>pr_DATE = d, pr_CLOSE = p_CLOSE r, pr_RETURN = ret\<rparr>)
                          (zip sorted (pct_change (map (p_CLOSE \<circ> snd) sorted)))))"

text \<open>
  \<open>prices.merge(news, on="DATE", how="inner")\<close>: every pair of a left and a right row with
  equal keys, in the order of the left rows.
\<close>

definition merge_inner :: "price_row list \<Rightarrow> daily_row list \<Rightarrow> (price_row \<times> daily_row) list" where
  "merge_inner prices news =
     concat (map (\<lambda>p. map (\<lambda>n. (p, n)) (filter (\<lambda>n. pr_DATE p = Some (d_DATE n)) news)) prices)"

record panel_env =
  NEWS_FILE :: "scored_file option"
  PRICES_FILE :: "price_file option"
  to_datetime :: "string option list \<Rightarrow> date option list"

definition panel_main :: "panel_env \<Rightarrow> (price_row \<times> daily_row) list artifact run" where
  "panel_main env =
     (case load_news (to_datetime env) (NEWS_FILE env) of
        Inl e \<Rightarrow> aborted [] e
      | Inr news \<Rightarrow>
          (case load_prices (to_datetime env) (PRICES_FILE env) of
             Inl e \<Rightarrow> aborted [] e
           | Inr prices \<Rightarrow> returned [] [Csv (merge_inner prices news)]))"

text \<open>
  \<open>pd.to_datetime(col, errors="coerce")\<close> with its default \<open>dayfirst=False\<close>, on cells that
  are missing or have the shape \<open>NN/NN/NNNN\<close> which the scorer writes (cells of another shape
  are outside this model and read as missing). The date parser reads the first number as the
  month unless it is larger than 12. From pandas 2.0 on, the order found in the first cell
  that is not missing is the format of the whole column, and a cell that does not fit it is
  NaT (\<open>pd_to_datetime\<close>); before, every cell was parsed by itself
  (\<open>pd_to_datetime_elementwise\<close>).
\<close>

definition digit_value :: "char \<Rightarrow> nat option" where
  "digit_value c =
     map_of [(CHR ''0'', 0), (CHR ''1'', 1), (CHR ''2'', 2), (CHR ''3'', 3), (CHR ''4'', 4),
             (CHR ''5'', 5), (CHR ''6'', 6), (CHR ''7'', 7), (CHR ''8'', 8), (CHR ''9'', 9)] c"

fun digits_value :: "nat \<Rightarrow> string \<Rightarrow> nat option" where
  "digits_value acc [] = Some acc"
| "digits_value acc (c # cs) =
     (case digit_value c of None \<Rightarrow> None | Some v \<Rightarrow> digits_value (10 * acc + v) cs)"

definition slash_fields :: "string \<Rightarrow> (nat \<times> nat \<times> nat) option" where
  "slash_fields s =
     (if length s = 10 \<and> s ! 2 = CHR ''/'' \<and> s ! 5 = CHR ''/''
      then
        (case (digits_value 0 (take 2 s), digits_value 0 (take 2 (drop 3 s)),
               digits_value 0 (drop 6 s)) of
           (Some a, Some b, Some y) \<Rightarrow> Some (a, b, y)
         | _ \<Rightarrow> None)
      else None)"

definition leap_year :: "nat \<Rightarrow> bool" where
  "leap_year y = (y mod 4 = 0 \<and> (y mod 100 \<noteq> 0 \<or> y mod 400 = 0))"

definition days_in_month :: "nat \<Rightarrow> nat \<Rightarrow> nat" where
  "days_in_month y m =
     (if m = 2 then (if leap_year y then 29 else 28)
      else if m = 4 \<or> m = 6 \<or> m = 9 \<or> m = 11 then 30 else 31)"

fun valid_date :: "date \<Rightarrow> bool" where
  "valid_date (y, m, d) = (1 \<le> m \<and> m \<le> 12 \<and> 1 \<le> d \<and> d \<le> days_in_month y m)"

datatype field_order = Month_first | Day_first

fun dateutil_order :: "nat \<times> nat \<times> nat \<Rightarrow> field_order" where
  "dateutil_order (a, b, y) = (if a > 12 then Day_first else Month_first)"

fun read_fields :: "field_order \<Rightarrow> nat \<times> nat \<times> nat \<Rightarrow> date option" where
  "read_fields Month_first (a, b, y) = (if valid_date (y, a, b) then Some (y, a, b) else None)"
| "read_fields Day_first (a, b, y) = (if valid_date (y, b, a) then Some (y, b, a) else None)"

definition parse_cell :: "string \<Rightarrow> date option" where
  "parse_cell s =
     (case slash_fields s of None \<Rightarrow> None | Some f \<Rightarrow> read_fields (dateutil_order f) f)"

definition guess_order :: "string \<Rightarrow> field_order option" where
  "guess_order s =
     (case slash_fields s of
        None \<Rightarrow> None
      | Some f \<Rightarrow> map_option (\<lambda>_. dateutil_order f) (read_fields (dateutil_order f) f))"

definition pd_to_datetime_elementwise :: "string option list \<Rightarrow> date option list" where
  "pd_to_datetime_elementwise cs = map (\<lambda>c. Option.bind c parse_cell) cs"

definition pd_to_datetime :: "string option list \<Rightarrow> date option list" where
  "pd_to_datetime cs =
     (case List.map_filter id cs of
        [] \<Rightarrow> map (\<lambda>c. None) cs
      | first # _ \<Rightarrow>
          (case guess_order first of
             None \<Rightarrow> pd_to_datetime_elementwise cs
           | Some ord \<Rightarrow>
               map (\<lambda>c. Option.bind c (\<lambda>s. Option.bind (slash_fields s) (read_fields ord))) cs))"

section \<open>lead_lag_sentiment_return.py and build_correlation.py\<close>

text \<open>
  The panel file as \<open>read_csv\<close> returns it. A \<open>DATE\<close> cell is empty, a date, or a text that
  \<open>pd.to_datetime\<close> cannot read, on which the call without \<open>errors="coerce"\<close> raises.
  \<open>RETURN\<close> and \<open>DAILY_SENTIMENT\<close> are the cells after \<open>to_numeric(errors="coerce")\<close>.
\<close>

datatype date_cell = Blank | Date date | Unparseable

record panel_cells =
  pc_DATE :: date_cell
  pc_RETURN :: fval
  pc_DAILY_SENTIMENT :: "real option"

record panel_file =
  pn_columns :: "string list"
  pn_rows :: "panel_cells list"

definition START_DATE :: date where
  "START_DATE = (2025, 8, 8)"

definition END_DATE :: date where
  "END_DATE = (2025, 11, 17)"

fun cell_date :: "date_cell \<Rightarrow> date option" where
  "cell_date (Date d) = Some d"
| "cell_date Blank = None"
| "cell_date Unparseable = None"

definition to_datetime_strict :: "date_cell list \<Rightarrow> error + date option list" where
  "to_datetime_strict cs =
     (if Unparseable \<in> set cs then Inl (ValueError ''Unknown datetime string format'')
      else Inr (map cell_date cs))"

text \<open>
  \<open>mask = (df["DATE"] >= START_DATE) & (df["DATE"] <= END_DATE)\<close>, false on NaT, then
  \<open>df.loc[mask].sort_values("DATE")\<close>. pandas does not fix the order of rows with equal
  dates; the model keeps them in their order.
\<close>

definition in_range :: "date \<Rightarrow> bool" where
  "in_range d = (START_DATE \<le> d \<and> d \<le> END_DATE)"

definition filter_sort :: "(date option \<times> panel_cells) list \<Rightarrow> (date \<times> panel_cells) list" where
  "filter_sort rs =
     sort_key fst
       (List.map_filter
          (\<lambda>(d, r). case d of None \<Rightarrow> None | Some d' \<Rightarrow> if in_range d' then Some (d', r) else None)
          rs)"

text \<open>\<open>shift(-1)\<close>: every entry moves up one row and the last row gets NaN.\<close>

fun shift_up :: "fval list \<Rightarrow> fval list" where
  "shift_up [] = []"
| "shift_up (x # xs) = xs @ [NaN]"

record lead_lag_row =
  ll_DATE :: date
  ll_DAILY_SENTIMENT :: real
  ll_RETURN_TOMORROW :: fval

text \<open>
  \<open>df[["DATE", "DAILY_SENTIMENT", "RETURN_TOMORROW"]].dropna()\<close>: the rows in which none of
  the three is missing (the date never is, after the filter).
\<close>

definition lead_lag_table :: "(date \<times> panel_cells) list \<Rightarrow> lead_lag_row list" where
  "lead_lag_table df =
     List.map_filter
       (\<lambda>((d, r), tomorrow).
          case pc_DAILY_SENTIMENT r of
            None \<Rightarrow> None
          | Some s \<Rightarrow>
              if tomorrow = NaN then None
              else Some \<lparr>ll_DATE = d, ll_DAILY_SENTIMENT = s, ll_RETURN_TOMORROW = tomorrow\<rparr>)
       (zip df (shift_up (map (pc_RETURN \<circ> snd) df)))"

text \<open>
  \<open>main\<close> of the lead-lag script. In the source the two \<open>ValueError\<close> messages have an en dash
  where the model has a hyphen. The correlation it prints is computed from the table and is
  not modelled; the table is written as a CSV and drawn as a chart.
\<close>

definition lead_lag_main :: "panel_file option \<Rightarrow> lead_lag_row list artifact run" where
  "lead_lag_main file =
     (case file of
        None \<Rightarrow> aborted [] FileNotFoundError
      | Some df \<Rightarrow>
          if ''DATE'' \<notin> set (pn_columns df)
          then aborted [] (KeyError ''Expected a DATE column in the panel file.'')
          else
            (case to_datetime_strict (map pc_DATE (pn_rows df)) of
               Inl e \<Rightarrow> aborted [] e
             | Inr dates \<Rightarrow>
                 if ''RETURN'' \<notin> set (pn_columns df) then aborted [] (ColumnKeyError [''RETURN''])
                 else if ''DAILY_SENTIMENT'' \<notin> set (pn_columns df)
                 then aborted [] (ColumnKeyError [''DAILY_SENTIMENT''])
                 else
                   let df' = filter_sort (zip dates (pn_rows df)) in
                   if df' = []
                   then aborted []
                          (ValueError ''No rows after date filtering - check START_DATE / END_DATE.'')
                   else
                     let lead_lag = lead_lag_table df' in
                     if lead_lag = []
                     then aborted []
                            (ValueError ''Lead/lag dataframe is empty - check RETURN column.'')
                     else returned [] [Csv lead_lag, Plot lead_lag]))"


section \<open>Concrete inputs\<close>

text \<open>
  A model that answers a text of length \<open>l\<close> with the probabilities \<open>1 / (1 + l)\<close>, \<open>0\<close> and
  \<open>l / (1 + l)\<close>, and seventeen texts, one more than a batch holds.
\<close>

definition demo_model :: finbert where
  "demo_model =
     \<lparr>infer = (\<lambda>batch. Inr (map (\<lambda>t. [1 / real (1 + length t), 0,
                                         real (length t) / real (1 + length t)]) batch)),
      pos_idx = 0, neg_idx = 1, neu_idx = 2\<rparr>"

definition demo_texts :: "string list" where
  "demo_texts = map (\<lambda>n. replicate n CHR ''a'') [0..<17]"

text \<open>
  A news file with three rows, one without a headline; a timestamp parser that puts every
  timestamp on 8 August 2025; a model whose label order is negative, neutral, positive and
  which answers a text of at most two characters with the probabilities 0.6 positive, 0.3
  negative, 0.1 neutral and a longer one with 0.04, 0.3, 0.66; the rows the scorer writes
  for the file with this model. Then a news file without
  any headline column, one whose headlines are all missing, a scored file without \<open>DATE\<close>,
  and a panel whose only dated row lies before the start date.
\<close>

definition demo_news :: csv_frame where
  "demo_news = \<lparr>columns = [''TIMESTAMP'', ''headline''],
     rows = [[''TIMESTAMP'' \<mapsto> ''2025-08-08T09:30:00Z'', ''headline'' \<mapsto> ''Up''],
             [''TIMESTAMP'' \<mapsto> ''2025-08-08T11:00:00Z''],
             [''TIMESTAMP'' \<mapsto> ''2025-08-08T12:00:00Z'', ''headline'' \<mapsto> ''Apple holds annual event'']]\<rparr>"

definition demo_to_datetime_utc :: "string option list \<Rightarrow> date option list" where
  "demo_to_datetime_utc cs = map (map_option (\<lambda>s. (2025, 8, 8))) cs"

definition demo_sentiment_model :: finbert where
  "demo_sentiment_model =
     \<lparr>infer = (\<lambda>batch. Inr (map (\<lambda>t. if length t \<le> 2 then [3 / 10, 1 / 10, 6 / 10]
                                         else [30 / 100, 66 / 100, 4 / 100]) batch)),
      pos_idx = 2, neg_idx = 0, neu_idx = 1\<rparr>"

definition demo_scorer_env :: scorer_env where
  "demo_scorer_env = \<lparr>INPUT_CSV = Some demo_news, to_datetime_utc = demo_to_datetime_utc,
     load_finbert = Inr demo_sentiment_model\<rparr>"

definition demo_scored_rows :: "scored_row list" where
  "demo_scored_rows =
     [\<lparr>cells = [''TIMESTAMP'' \<mapsto> ''2025-08-08T09:30:00Z'', ''headline'' \<mapsto> ''Up''],
       DATE = ''08/08/2025'', FINBERT_POS = 6 / 10, FINBERT_NEG = 3 / 10, FINBERT_NEU = 1 / 10,
       FINBERT_SCORE = 3 / 10, FINBERT_LABEL = ''positive''\<rparr>,
      \<lparr>cells = [''TIMESTAMP'' \<mapsto> ''2025-08-08T12:00:00Z'', ''headline'' \<mapsto> ''Apple holds annual event''],
       DATE = ''08/08/2025'', FINBERT_POS = 4 / 100, FINBERT_NEG = 30 / 100, FINBERT_NEU = 66 / 100,
       FINBERT_SCORE = - (26 / 100), FINBERT_LABEL = ''negative''\<rparr>]"

definition demo_news_no_headline :: csv_frame where
  "demo_news_no_headline = \<lparr>columns = [''TIMESTAMP'', ''text''],
     rows = [[''TIMESTAMP'' \<mapsto> ''2025-08-08T09:30:00Z'', ''text'' \<mapsto> ''Up'']]\<rparr>"

definition demo_news_all_empty :: csv_frame where
  "demo_news_all_empty = \<lparr>columns = [''TIMESTAMP'', ''Title''],
     rows = [[''TIMESTAMP'' \<mapsto> ''2025-08-08T09:30:00Z''], [''TIMESTAMP'' \<mapsto> ''2025-08-09T09:30:00Z'']]\<rparr>"

definition demo_scored_no_date :: scored_file where
  "demo_scored_no_date = \<lparr>sf_columns = [''FINBERT_SCORE'', ''FINBERT_LABEL''],
     sf_rows = [\<lparr>c_DATE = None, c_FINBERT_SCORE = Some (1 / 3), c_FINBERT_LABEL = Some ''positive''\<rparr>]\<rparr>"

definition demo_panel_out_of_range :: panel_file where
  "demo_panel_out_of_range = \<lparr>pn_columns = [''DATE'', ''RETURN'', ''DAILY_SENTIMENT''],
     pn_rows = [\<lparr>pc_DATE = Date (2025, 1, 2), pc_RETURN = Fin (1 / 100), pc_DAILY_SENTIMENT = Some (1 / 10)\<rparr>,
                \<lparr>pc_DATE = Blank, pc_RETURN = NaN, pc_DAILY_SENTIMENT = None\<rparr>]\<rparr>"

text \<open>
  The dates pandas gives to the date cells of the examples below; one day of three scored
  headlines with the scores 0.2, -0.4 and 0.1 and the labels the scorer gives them, and the
  daily row the panel builder makes of it; a price file of three days in shuffled order
  with the closes 100, 105 and 103 and the rows \<open>load_prices\<close> makes of it.
\<close>

definition demo_to_datetime :: "string option list \<Rightarrow> date option list" where
  "demo_to_datetime cs =
     map (\<lambda>c. Option.bind c
            (map_of [(''13/08/2025'', (2025, 8, 13)), (''2025-08-12'', (2025, 8, 12)),
                     (''2025-08-13'', (2025, 8, 13)), (''2025-08-14'', (2025, 8, 14))])) cs"

definition demo_scored_day :: scored_file where
  "demo_scored_day =
     \<lparr>sf_columns = [''HEADLINE'', ''TIMESTAMP'', ''DATE'', ''FINBERT_POS'', ''FINBERT_NEG'',
                    ''FINBERT_NEU'', ''FINBERT_SCORE'', ''FINBERT_LABEL''],
      sf_rows =
        [\<lparr>c_DATE = Some ''13/08/2025'', c_FINBERT_SCORE = Some (2 / 10),
          c_FINBERT_LABEL = Some (finbert_label (2 / 10))\<rparr>,
         \<lparr>c_DATE = Some ''13/08/2025'', c_FINBERT_SCORE = Some (- (4 / 10)),
          c_FINBERT_LABEL = Some (finbert_label (- (4 / 10)))\<rparr>,
         \<lparr>c_DATE = Some ''13/08/2025'', c_FINBERT_SCORE = Some (1 / 10),
          c_FINBERT_LABEL = Some (finbert_label (1 / 10))\<rparr>]\<rparr>"

definition demo_daily :: "daily_row list" where
  "demo_daily =
     [\<lparr>d_DATE = (2025, 8, 13), DAILY_SENTIMENT = Some (- (1 / 30)), NUM_HEADLINES = 3,
       POS_SHARE = Some (2 / 3), NEG_SHARE = Some (1 / 3)\<rparr>]"

definition demo_prices :: price_file where
  "demo_prices =
     \<lparr>pf_columns = [''TIMESTAMP'', ''TRDPRC_1'', ''ACVOL_UNS''],
      pf_rows = [\<lparr>p_TIMESTAMP = Some ''2025-08-13'', p_CLOSE = 105\<rparr>,
                 \<lparr>p_TIMESTAMP = Some ''2025-08-12'', p_CLOSE = 100\<rparr>,
                 \<lparr>p_TIMESTAMP = Some ''2025-08-14'', p_CLOSE = 103\<rparr>]\<rparr>"

definition demo_price_rows :: "price_row list" where
  "demo_price_rows =
     [\<lparr>pr_DATE = Some (2025, 8, 12), pr_CLOSE = 100, pr_RETURN = NaN\<rparr>,
      \<lparr>pr_DATE = Some (2025, 8, 13), pr_CLOSE = 105, pr_RETURN = Fin (5 / 100)\<rparr>,
      \<lparr>pr_DATE = Some (2025, 8, 14), pr_CLOSE = 103, pr_RETURN = Fin (- (2 / 105))\<rparr>]"

definition demo_panel_env :: panel_env where
  "demo_panel_env =
     \<lparr>NEWS_FILE = Some demo_scored_day, PRICES_FILE = Some demo_prices,
      to_datetime = demo_to_datetime\<rparr>"

text \<open>
  A panel with one row before the date range and four rows in it (sentiments 0.1 to 0.4,
  returns 0.01, -0.02, 0.03, 0.04), its rows in the range, and its lead-lag table; and a
  panel of three days whose second return is missing.
\<close>

definition demo_panel :: panel_file where
  "demo_panel =
     \<lparr>pn_columns = [''DATE'', ''CLOSE'', ''RETURN'', ''DAILY_SENTIMENT'', ''NUM_HEADLINES''],
      pn_rows =
        [\<lparr>pc_DATE = Date (2025, 1, 2), pc_RETURN = NaN, pc_DAILY_SENTIMENT = Some (5 / 10)\<rparr>,
         \<lparr>pc_DATE = Date (2025, 8, 11), pc_RETURN = Fin (1 / 100), pc_DAILY_SENTIMENT = Some (1 / 10)\<rparr>,
         \<lparr>pc_DATE = Date (2025, 8, 12), pc_RETURN = Fin (- (2 / 100)), pc_DAILY_SENTIMENT = Some (2 / 10)\<rparr>,
         \<lparr>pc_DATE = Date (2025, 8, 13), pc_RETURN = Fin (3 / 100), pc_DAILY_SENTIMENT = Some (3 / 10)\<rparr>,
         \<lparr>pc_DATE = Date (2025, 8, 14), pc_RETURN = Fin (4 / 100), pc_DAILY_SENTIMENT = Some (4 / 10)\<rparr>]\<rparr>"

definition demo_panel_frame :: "(date \<times> panel_cells) list" where
  "demo_panel_frame =
     [((2025, 8, 11), \<lparr>pc_DATE = Date (2025, 8, 11), pc_RETURN = Fin (1 / 100), pc_DAILY_SENTIMENT = Some (1 / 10)\<rparr>),
      ((2025, 8, 12), \<lparr>pc_DATE = Date (2025, 8, 12), pc_RETURN = Fin (- (2 / 100)), pc_DAILY_SENTIMENT = Some (2 / 10)\<rparr>),
      ((2025, 8, 13), \<lparr>pc_DATE = Date (2025, 8, 13), pc_RETURN = Fin (3 / 100), pc_DAILY_SENTIMENT = Some (3 / 10)\<rparr>),
      ((2025, 8, 14), \<lparr>pc_DATE = Date (2025, 8, 14), pc_RETURN = Fin (4 / 100), pc_DAILY_SENTIMENT = Some (4 / 10)\<rparr>)]"

definition demo_lead_lag :: "lead_lag_row list" where
  "demo_lead_lag =
     [\<lparr>ll_DATE = (2025, 8, 11), ll_DAILY_SENTIMENT = 1 / 10, ll_RETURN_TOMORROW = Fin (- (2 / 100))\<rparr>,
      \<lparr>ll_DATE = (2025, 8, 12), ll_DAILY_SENTIMENT = 2 / 10, ll_RETURN_TOMORROW = Fin (3 / 100)\<rparr>,
      \<lparr>ll_DATE = (2025, 8, 13), ll_DAILY_SENTIMENT = 3 / 10, ll_RETURN_TOMORROW = Fin (4 / 100)\<rparr>]"

definition demo_panel_gap :: panel_file where
  "demo_panel_gap =
     \<lparr>pn_columns = [''DATE'', ''CLOSE'', ''RETURN'', ''DAILY_SENTIMENT'', ''NUM_HEADLINES''],
      pn_rows =
        [\<lparr>pc_DATE = Date (2025, 8, 11), pc_RETURN = Fin (1 / 100), pc_DAILY_SENTIMENT = Some (1 / 10)\<rparr>,
         \<lparr>pc_DATE = Date (2025, 8, 12), pc_RETURN = NaN, pc_DAILY_SENTIMENT = Some (2 / 10)\<rparr>,
         \<lparr>pc_DATE = Date (2025, 8, 13), pc_RETURN = Fin (3 / 100), pc_DAILY_SENTIMENT = Some (3 / 10)\<rparr>]\<rparr>"

text \<open>
  The scored file of one headline of 5 September 2025, with the \<open>DATE\<close> text the scorer
  writes for that day.
\<close>

definition demo_scored_sep5 :: scored_file where
  "demo_scored_sep5 =
     \<lparr>sf_columns = [''HEADLINE'', ''TIMESTAMP'', ''DATE'', ''FINBERT_POS'', ''FINBERT_NEG'',
                    ''FINBERT_NEU'', ''FINBERT_SCORE'', ''FINBERT_LABEL''],
      sf_rows =
        [\<lparr>c_DATE = Some (strftime_dmy (2025, 9, 5)), c_FINBERT_SCORE = Some (2 / 10),
          c_FINBERT_LABEL = Some (finbert_label (2 / 10))\<rparr>]\<rparr>"

section \<open>The batches of the scorer\<close>

lemma chunks_from_concat: "0 < sz \<Longrightarrow> concat (chunks_from xs sz i) = drop i xs"
proof (induction xs sz i rule: chunks_from.induct)
  case (1 xs sz i)
  show ?case
  proof (cases "length xs \<le> i")
    case True
    then show ?thesis by (simp add: chunks_from.simps [of xs sz i])
  next
    case False
    with 1 have "concat (chunks_from xs sz (i + sz)) = drop (i + sz) xs" by simp
    moreover have "take sz (drop i xs) @ drop (i + sz) xs = drop i xs"
      by (metis add.commute append_take_drop_id drop_drop)
    ultimately show ?thesis using False 1(2)
      by (simp add: chunks_from.simps [of xs sz i])
  qed
qed

lemma chunks_from_nth:
  "0 < sz \<Longrightarrow> i + j * sz < length xs \<Longrightarrow>
     j < length (chunks_from xs sz i) \<and> chunks_from xs sz i ! j = take sz (drop (i + j * sz) xs)"
proof (induction xs sz i arbitrary: j rule: chunks_from.induct)
  case (1 xs sz i)
  from 1(3) have False: "\<not> length xs \<le> i" by simp
  show ?case
  proof (cases j)
    case 0
    then show ?thesis using False 1(2) by (simp add: chunks_from.simps [of xs sz i])
  next
    case (Suc j')
    with 1(3) have "i + sz + j' * sz < length xs" by simp
    with 1(1) [of j'] False 1(2)
    have "j' < length (chunks_from xs sz (i + sz))
          \<and> chunks_from xs sz (i + sz) ! j' = take sz (drop (i + sz + j' * sz) xs)" by simp
    then show ?thesis using Suc False 1(2)
      by (simp add: chunks_from.simps [of xs sz i] add.assoc)
  qed
qed

lemma column_Inr: "column probs idx = Inr cs \<Longrightarrow> cs = map (\<lambda>row. row ! idx) probs"
  by (simp add: column_def split: if_splits)

lemma score_batches_chunks:
  assumes len: "\<And>b probs. infer m b = Inr probs \<Longrightarrow> length probs = length b"
  shows "0 < sz \<Longrightarrow> score_batches m (chunks_from xs sz i) (ap, an, au) = Inr (ps, ns, us) \<Longrightarrow>
    \<exists>prows. length prows = length xs - i
      \<and> ps = ap @ map (\<lambda>row. row ! pos_idx m) prows
      \<and> ns = an @ map (\<lambda>row. row ! neg_idx m) prows
      \<and> us = au @ map (\<lambda>row. row ! neu_idx m) prows
      \<and> (\<forall>k<length xs - i. \<exists>probs.
            infer m (take sz (drop (i + (k div sz) * sz) xs)) = Inr probs
            \<and> prows ! k = probs ! (k mod sz))"
proof (induction xs sz i arbitrary: ap an au rule: chunks_from.induct)
  case (1 xs sz i)
  show ?case
  proof (cases "length xs \<le> i")
    case True
    with 1(3) show ?thesis by (simp add: chunks_from.simps [of xs sz i])
  next
    case False
    define batch where "batch = take sz (drop i xs)"
    from 1(2) have sz': "0 < sz" .
    have step: "chunks_from xs sz i = batch # chunks_from xs sz (i + sz)"
      using False sz' by (simp add: chunks_from.simps [of xs sz i] batch_def)
    from 1(3) obtain probs where
      inf: "infer m batch = Inr probs" and
      rest: "score_batches m (chunks_from xs sz (i + sz))
               (ap @ map (\<lambda>row. row ! pos_idx m) probs,
                an @ map (\<lambda>row. row ! neg_idx m) probs,
                au @ map (\<lambda>row. row ! neu_idx m) probs) = Inr (ps, ns, us)"
      unfolding step by (auto split: sum.splits dest!: column_Inr)
    from len [OF inf] have lp: "length probs = min sz (length xs - i)"
      by (simp add: batch_def min.commute)
    from 1(1) [OF _ sz' rest] False sz' obtain prows' where
      l': "length prows' = length xs - (i + sz)" and
      ps: "ps = (ap @ map (\<lambda>row. row ! pos_idx m) probs) @ map (\<lambda>row. row ! pos_idx m) prows'" and
      ns: "ns = (an @ map (\<lambda>row. row ! neg_idx m) probs) @ map (\<lambda>row. row ! neg_idx m) prows'" and
      us: "us = (au @ map (\<lambda>row. row ! neu_idx m) probs) @ map (\<lambda>row. row ! neu_idx m) prows'" and
      al: "\<forall>k<length xs - (i + sz). \<exists>probs.
            infer m (take sz (drop (i + sz + (k div sz) * sz) xs)) = Inr probs
            \<and> prows' ! k = probs ! (k mod sz)"
      by auto
    have "\<forall>k<length xs - i. \<exists>pr.
            infer m (take sz (drop (i + (k div sz) * sz) xs)) = Inr pr
            \<and> (probs @ prows') ! k = pr ! (k mod sz)"
    proof (intro allI impI)
      fix k assume k: "k < length xs - i"
      show "\<exists>pr. infer m (take sz (drop (i + (k div sz) * sz) xs)) = Inr pr
            \<and> (probs @ prows') ! k = pr ! (k mod sz)"
      proof (cases "k < sz")
        case True
        with k lp have "k < length probs" by simp
        with True inf show ?thesis by (simp add: nth_append batch_def)
      next
        case False
        then have ge: "sz \<le> k" by simp
        with k lp have lps: "length probs = sz" by simp
        from ge k have "k - sz < length xs - (i + sz)" by simp
        with al obtain pr where
          a: "infer m (take sz (drop (i + sz + ((k - sz) div sz) * sz) xs)) = Inr pr" and
          b: "prows' ! (k - sz) = pr ! ((k - sz) mod sz)" by blast
        from ge sz' have d: "k div sz = Suc ((k - sz) div sz)"
          by (simp add: le_div_geq)
        have e: "i + sz + ((k - sz) div sz) * sz = i + (k div sz) * sz"
          unfolding d by simp
        from ge have f: "(k - sz) mod sz = k mod sz" by (simp add: le_mod_geq)
        show ?thesis using a b e f ge lps by (simp add: nth_append)
      qed
    qed
    moreover have "length (probs @ prows') = length xs - i" using lp l' False by auto
    ultimately show ?thesis using ps ns us
      by (intro exI [of _ "probs @ prows'"]) simp
  qed
qed

text \<open>
  Claim C9. The chunking function cuts the texts into consecutive batches whose
  concatenation is the original sequence, for every positive batch size. When a scoring
  run returns, there is one probability row per text, the three returned sequences are the
  three columns of these rows, and the row of the k-th text is row \<open>k mod 16\<close> of what the
  model returned for batch \<open>k div 16\<close>, the batch that holds the k-th text at that place
  (given that the model returns one row per text of a batch).
\<close>

theorem scorer_batches_in_input_order:
  "(0 < sz \<longrightarrow> (\<exists>batches. chunked texts sz = Inr batches \<and> concat batches = texts))
   \<and> (score_with_finbert m texts = Inr (ps, ns, us)
        \<and> (\<forall>batch probs. infer m batch = Inr probs \<longrightarrow> length probs = length batch) \<longrightarrow>
      (\<exists>batches prows.
         chunked texts BATCH_SIZE = Inr batches \<and> concat batches = texts
         \<and> length prows = length texts
         \<and> ps = map (\<lambda>row. row ! pos_idx m) prows
         \<and> ns = map (\<lambda>row. row ! neg_idx m) prows
         \<and> us = map (\<lambda>row. row ! neu_idx m) prows
         \<and> (\<forall>k<length texts.
               k div 16 < length batches
               \<and> k mod 16 < length (batches ! (k div 16))
               \<and> texts ! k = batches ! (k div 16) ! (k mod 16)
               \<and> (\<exists>probs. infer m (batches ! (k div 16)) = Inr probs
                      \<and> prows ! k = probs ! (k mod 16)))))"
proof (intro conjI impI)
  assume "0 < sz"
  then show "\<exists>batches. chunked texts sz = Inr batches \<and> concat batches = texts"
    by (simp add: chunked_def chunks_from_concat)
next
  assume a: "score_with_finbert m texts = Inr (ps, ns, us)
        \<and> (\<forall>batch probs. infer m batch = Inr probs \<longrightarrow> length probs = length batch)"
  define batches where "batches = chunks_from texts 16 0"
  have ch: "chunked texts BATCH_SIZE = Inr batches"
    by (simp add: chunked_def BATCH_SIZE_def batches_def)
  from a ch have sb: "score_batches m (chunks_from texts 16 0) ([], [], []) = Inr (ps, ns, us)"
    by (simp add: score_with_finbert_def batches_def)
  from a have len: "\<And>b probs. infer m b = Inr probs \<Longrightarrow> length probs = length b" by blast
  from score_batches_chunks [OF len _ sb] obtain prows where
    l: "length prows = length texts" and
    ps: "ps = map (\<lambda>row. row ! pos_idx m) prows" and
    ns: "ns = map (\<lambda>row. row ! neg_idx m) prows" and
    us: "us = map (\<lambda>row. row ! neu_idx m) prows" and
    al: "\<forall>k<length texts. \<exists>probs.
            infer m (take 16 (drop ((k div 16) * 16) texts)) = Inr probs
            \<and> prows ! k = probs ! (k mod 16)"
    by auto
  have "\<forall>k<length texts.
          k div 16 < length batches
          \<and> k mod 16 < length (batches ! (k div 16))
          \<and> texts ! k = batches ! (k div 16) ! (k mod 16)
          \<and> (\<exists>probs. infer m (batches ! (k div 16)) = Inr probs
                 \<and> prows ! k = probs ! (k mod 16))"
  proof (intro allI impI)
    fix k assume k: "k < length texts"
    have le: "(k div 16) * 16 \<le> k" by simp
    with k have "0 + (k div 16) * 16 < length texts" by simp
    with chunks_from_nth [where sz = 16 and i = 0 and j = "k div 16" and xs = texts]
    have j: "k div 16 < length batches"
      and b: "batches ! (k div 16) = take 16 (drop ((k div 16) * 16) texts)"
      by (simp_all add: batches_def)
    have eq: "(k div 16) * 16 + k mod 16 = k" by simp
    have m: "k mod 16 < length (batches ! (k div 16))"
      unfolding b using k eq by (simp add: less_diff_conv)
    have "batches ! (k div 16) ! (k mod 16) = texts ! ((k div 16) * 16 + k mod 16)"
      unfolding b using m b k by (simp add: less_diff_conv)
    with eq have t: "texts ! k = batches ! (k div 16) ! (k mod 16)" by simp
    from al k b have "\<exists>probs. infer m (batches ! (k div 16)) = Inr probs
                 \<and> prows ! k = probs ! (k mod 16)" by simp
    with j m t show "k div 16 < length batches
          \<and> k mod 16 < length (batches ! (k div 16))
          \<and> texts ! k = batches ! (k div 16) ! (k mod 16)
          \<and> (\<exists>probs. infer m (batches ! (k div 16)) = Inr probs
                 \<and> prows ! k = probs ! (k mod 16))" by blast
  qed
  with ch l ps ns us chunks_from_concat [of 16 texts 0] show
    "\<exists>batches prows.
         chunked texts BATCH_SIZE = Inr batches \<and> concat batches = texts
         \<and> length prows = length texts
         \<and> ps = map (\<lambda>row. row ! pos_idx m) prows
         \<and> ns = map (\<lambda>row. row ! neg_idx m) prows
         \<and> us = map (\<lambda>row. row ! neu_idx m) prows
         \<and> (\<forall>k<length texts.
               k div 16 < length batches
               \<and> k mod 16 < length (batches ! (k div 16))
               \<and> texts ! k = batches ! (k div 16) ! (k mod 16)
               \<and> (\<exists>probs. infer m (batches ! (k div 16)) = Inr probs
                      \<and> prows ! k = probs ! (k mod 16)))"
    by (intro exI [of _ batches] exI [of _ prows]) (simp add: batches_def)
qed

lemma demo_scores:
  "score_with_finbert demo_model demo_texts
     = Inr (map (\<lambda>l. 1 / real (1 + l)) [0..<17], replicate 17 0,
            map (\<lambda>l. real l / real (1 + l)) [0..<17])"
  by code_simp


theorem scorer_batches_in_input_order_witness:
  "(0::int) < 16
   \<and> score_with_finbert demo_model demo_texts
         = Inr (map (\<lambda>l. 1 / real (1 + l)) [0..<17], replicate 17 0,
            map (\<lambda>l. real l / real (1 + l)) [0..<17])
   \<and> (\<exists>batches prows.
         chunked demo_texts 16 = Inr batches \<and> concat batches = demo_texts
         \<and> length prows = length demo_texts
         \<and> map (\<lambda>l. 1 / real (1 + l)) [0..<17] = map (\<lambda>row. row ! pos_idx demo_model) prows
         \<and> (\<forall>k<length demo_texts.
               demo_texts ! k = batches ! (k div 16) ! (k mod 16)
               \<and> (\<exists>probs. infer demo_model (batches ! (k div 16)) = Inr probs
                      \<and> prows ! k = probs ! (k mod 16))))"
proof -
  have h: "score_with_finbert demo_model demo_texts
             = Inr (map (\<lambda>l. 1 / real (1 + l)) [0..<17], replicate 17 0,
            map (\<lambda>l. real l / real (1 + l)) [0..<17])
           \<and> (\<forall>batch probs. infer demo_model batch = Inr probs \<longrightarrow> length probs = length batch)"
    using demo_scores by (auto simp: demo_model_def)
  from scorer_batches_in_input_order
         [of 16 demo_texts demo_model "map (\<lambda>l. 1 / real (1 + l)) [0..<17]" "replicate 17 0"
            "map (\<lambda>l. real l / real (1 + l)) [0..<17]"] h
  have "\<exists>batches prows.
         chunked demo_texts BATCH_SIZE = Inr batches \<and> concat batches = demo_texts
         \<and> length prows = length demo_texts
         \<and> map (\<lambda>l. 1 / real (1 + l)) [0..<17] = map (\<lambda>row. row ! pos_idx demo_model) prows
         \<and> replicate 17 0 = map (\<lambda>row. row ! neg_idx demo_model) prows
         \<and> map (\<lambda>l. real l / real (1 + l)) [0..<17] = map (\<lambda>row. row ! neu_idx demo_model) prows
         \<and> (\<forall>k<length demo_texts.
               k div 16 < length batches
               \<and> k mod 16 < length (batches ! (k div 16))
               \<and> demo_texts ! k = batches ! (k div 16) ! (k mod 16)
               \<and> (\<exists>probs. infer demo_model (batches ! (k div 16)) = Inr probs
                      \<and> prows ! k = probs ! (k mod 16)))"
    by blast
  then obtain batches prows where
    "chunked demo_texts BATCH_SIZE = Inr batches" "concat batches = demo_texts"
    "length prows = length demo_texts"
    "map (\<lambda>l. 1 / real (1 + l)) [0..<17] = map (\<lambda>row. row ! pos_idx demo_model) prows"
    "\<forall>k<length demo_texts.
               k div 16 < length batches
               \<and> k mod 16 < length (batches ! (k div 16))
               \<and> demo_texts ! k = batches ! (k div 16) ! (k mod 16)
               \<and> (\<exists>probs. infer demo_model (batches ! (k div 16)) = Inr probs
                      \<and> prows ! k = probs ! (k mod 16))"
    by blast
  then have "chunked demo_texts 16 = Inr batches \<and> concat batches = demo_texts
         \<and> length prows = length demo_texts
         \<and> map (\<lambda>l. 1 / real (1 + l)) [0..<17] = map (\<lambda>row. row ! pos_idx demo_model) prows
         \<and> (\<forall>k<length demo_texts.
               demo_texts ! k = batches ! (k div 16) ! (k mod 16)
               \<and> (\<exists>probs. infer demo_model (batches ! (k div 16)) = Inr probs
                      \<and> prows ! k = probs ! (k mod 16)))"
    by (simp add: BATCH_SIZE_def)
  moreover have "(0::int) < 16" by simp
  ultimately show ?thesis using h by blast
qed

section \<open>Score and label\<close>

lemma finbert_label_cases:
  "(finbert_label x = ''positive'' \<longleftrightarrow> x > 5 / 100)
   \<and> (finbert_label x = ''negative'' \<longleftrightarrow> x < - (5 / 100))
   \<and> (finbert_label x = ''neutral'' \<longleftrightarrow> - (5 / 100) \<le> x \<and> x \<le> 5 / 100)"
  by (auto simp: finbert_label_def)

lemma scorer_main_rows:
  assumes "written (scorer_main env) = [Csv rs]" and "r \<in> set rs"
  shows "FINBERT_SCORE r = finbert_score (FINBERT_POS r) (FINBERT_NEG r)
         \<and> FINBERT_LABEL r = finbert_label (FINBERT_SCORE r)"
proof -
  from assms(1) obtain xs where "rs = map add_sentiment_columns xs"
    by (auto simp: scorer_main_def aborted_def returned_def Let_def
             split: option.splits sum.splits if_splits prod.splits)
  with assms(2) obtain x where "r = add_sentiment_columns x" by auto
  then show ?thesis by (cases x) (auto simp: add_sentiment_columns_def)
qed

lemma scorer_main_written:
  assumes "written (scorer_main env) = [Csv rs]"
  shows "\<exists>df0 col ws dated m pos neg neu.
           INPUT_CSV env = Some df0
           \<and> find_headline_column (columns df0) = Inr col
           \<and> add_date_from_timestamp (to_datetime_utc env)
                 (df0\<lparr>rows := filter (\<lambda>r. r col \<noteq> None) (rows df0)\<rparr>) = Inr (ws, dated)
           \<and> load_finbert env = Inr m
           \<and> score_with_finbert m
                 (map (\<lambda>(r, d). case r col of Some h \<Rightarrow> h | None \<Rightarrow> ''nan'') dated)
               = Inr (pos, neg, neu)
           \<and> length pos = length dated \<and> length neg = length dated \<and> length neu = length dated
           \<and> rs = map add_sentiment_columns (zip dated (zip pos (zip neg neu)))"
  using assms
  by (auto simp: scorer_main_def aborted_def returned_def Let_def
           split: option.splits sum.splits if_splits prod.splits)

lemma add_sentiment_columns_nth:
  assumes "length pos = length dated" and "length neg = length dated"
    and "length neu = length dated" and "k < length dated"
  shows "map add_sentiment_columns (zip dated (zip pos (zip neg neu))) ! k
         = \<lparr>cells = fst (dated ! k), DATE = snd (dated ! k), FINBERT_POS = pos ! k,
            FINBERT_NEG = neg ! k, FINBERT_NEU = neu ! k,
            FINBERT_SCORE = pos ! k - neg ! k,
            FINBERT_LABEL = finbert_label (pos ! k - neg ! k)\<rparr>"
  using assms
  by (cases "dated ! k") (simp add: add_sentiment_columns_def finbert_score_def)

text \<open>
  Claim C1. The score is the positive minus the negative probability and lies in
  \<open>[-1, 1]\<close> when both probabilities lie in \<open>[0, 1]\<close>. The label is a function of the score
  alone: positive exactly above 0.05, negative exactly below -0.05, neutral exactly in
  between, the two thresholds included. Every file the scorer writes comes from a run in
  which \<open>score_with_finbert\<close> returned three sequences for the headlines of the kept rows,
  and its k-th row carries the k-th positive, negative and neutral probability of these
  sequences, their difference positive minus negative as the score, and the label of that
  difference.
\<close>

theorem score_and_label:
  "finbert_score p n = p - n
   \<and> (0 \<le> p \<and> p \<le> 1 \<and> 0 \<le> n \<and> n \<le> 1 \<longrightarrow> - 1 \<le> finbert_score p n \<and> finbert_score p n \<le> 1)
   \<and> (finbert_label x = ''positive'' \<longleftrightarrow> x > 5 / 100)
   \<and> (finbert_label x = ''negative'' \<longleftrightarrow> x < - (5 / 100))
   \<and> (finbert_label x = ''neutral'' \<longleftrightarrow> - (5 / 100) \<le> x \<and> x \<le> 5 / 100)
   \<and> finbert_label (5 / 100) = ''neutral''
   \<and> finbert_label (- (5 / 100)) = ''neutral''
   \<and> (written (scorer_main env) = [Csv rs] \<and> r \<in> set rs \<longrightarrow>
        FINBERT_SCORE r = finbert_score (FINBERT_POS r) (FINBERT_NEG r)
        \<and> FINBERT_LABEL r = finbert_label (FINBERT_SCORE r))
   \<and> (written (scorer_main env) = [Csv rs] \<longrightarrow>
        (\<exists>df0 col ws dated m pos neg neu.
           INPUT_CSV env = Some df0
           \<and> find_headline_column (columns df0) = Inr col
           \<and> add_date_from_timestamp (to_datetime_utc env)
                 (df0\<lparr>rows := filter (\<lambda>r. r col \<noteq> None) (rows df0)\<rparr>) = Inr (ws, dated)
           \<and> load_finbert env = Inr m
           \<and> score_with_finbert m
                 (map (\<lambda>(r, d). case r col of Some h \<Rightarrow> h | None \<Rightarrow> ''nan'') dated)
               = Inr (pos, neg, neu)
           \<and> length rs = length dated \<and> length pos = length dated
           \<and> length neg = length dated \<and> length neu = length dated
           \<and> (\<forall>k<length rs.
                 cells (rs ! k) = fst (dated ! k) \<and> DATE (rs ! k) = snd (dated ! k)
                 \<and> FINBERT_POS (rs ! k) = pos ! k
                 \<and> FINBERT_NEG (rs ! k) = neg ! k
                 \<and> FINBERT_NEU (rs ! k) = neu ! k
                 \<and> FINBERT_SCORE (rs ! k) = pos ! k - neg ! k
                 \<and> FINBERT_LABEL (rs ! k) = finbert_label (pos ! k - neg ! k))))"
proof -
  have tied: "\<exists>df0 col ws dated m pos neg neu.
           INPUT_CSV env = Some df0
           \<and> find_headline_column (columns df0) = Inr col
           \<and> add_date_from_timestamp (to_datetime_utc env)
                 (df0\<lparr>rows := filter (\<lambda>r. r col \<noteq> None) (rows df0)\<rparr>) = Inr (ws, dated)
           \<and> load_finbert env = Inr m
           \<and> score_with_finbert m
                 (map (\<lambda>(r, d). case r col of Some h \<Rightarrow> h | None \<Rightarrow> ''nan'') dated)
               = Inr (pos, neg, neu)
           \<and> length rs = length dated \<and> length pos = length dated
           \<and> length neg = length dated \<and> length neu = length dated
           \<and> (\<forall>k<length rs.
                 cells (rs ! k) = fst (dated ! k) \<and> DATE (rs ! k) = snd (dated ! k)
                 \<and> FINBERT_POS (rs ! k) = pos ! k
                 \<and> FINBERT_NEG (rs ! k) = neg ! k
                 \<and> FINBERT_NEU (rs ! k) = neu ! k
                 \<and> FINBERT_SCORE (rs ! k) = pos ! k - neg ! k
                 \<and> FINBERT_LABEL (rs ! k) = finbert_label (pos ! k - neg ! k))"
    if w: "written (scorer_main env) = [Csv rs]"
  proof -
    from scorer_main_written [OF w] obtain df0 col ws dated m pos neg neu where
      a: "INPUT_CSV env = Some df0"
         "find_headline_column (columns df0) = Inr col"
         "add_date_from_timestamp (to_datetime_utc env)
                 (df0\<lparr>rows := filter (\<lambda>r. r col \<noteq> None) (rows df0)\<rparr>) = Inr (ws, dated)"
         "load_finbert env = Inr m"
         "score_with_finbert m
                 (map (\<lambda>(r, d). case r col of Some h \<Rightarrow> h | None \<Rightarrow> ''nan'') dated)
               = Inr (pos, neg, neu)" and
      l: "length pos = length dated" "length neg = length dated" "length neu = length dated" and
      rs: "rs = map add_sentiment_columns (zip dated (zip pos (zip neg neu)))"
      by blast
    from rs l have lr: "length rs = length dated" by simp
    have "\<forall>k<length rs.
                 cells (rs ! k) = fst (dated ! k) \<and> DATE (rs ! k) = snd (dated ! k)
                 \<and> FINBERT_POS (rs ! k) = pos ! k
                 \<and> FINBERT_NEG (rs ! k) = neg ! k
                 \<and> FINBERT_NEU (rs ! k) = neu ! k
                 \<and> FINBERT_SCORE (rs ! k) = pos ! k - neg ! k
                 \<and> FINBERT_LABEL (rs ! k) = finbert_label (pos ! k - neg ! k)"
    proof (intro allI impI)
      fix k assume "k < length rs"
      with lr have k: "k < length dated" by simp
      show "cells (rs ! k) = fst (dated ! k) \<and> DATE (rs ! k) = snd (dated ! k)
                 \<and> FINBERT_POS (rs ! k) = pos ! k
                 \<and> FINBERT_NEG (rs ! k) = neg ! k
                 \<and> FINBERT_NEU (rs ! k) = neu ! k
                 \<and> FINBERT_SCORE (rs ! k) = pos ! k - neg ! k
                 \<and> FINBERT_LABEL (rs ! k) = finbert_label (pos ! k - neg ! k)"
        unfolding rs add_sentiment_columns_nth [OF l k] by simp
    qed
    with a l lr show ?thesis by blast
  qed
  have base: "finbert_score p n = p - n
   \<and> (0 \<le> p \<and> p \<le> 1 \<and> 0 \<le> n \<and> n \<le> 1 \<longrightarrow> - 1 \<le> finbert_score p n \<and> finbert_score p n \<le> 1)
   \<and> finbert_label (5 / 100) = ''neutral''
   \<and> finbert_label (- (5 / 100)) = ''neutral''"
    by (simp add: finbert_score_def finbert_label_def)
  from base tied finbert_label_cases [of x] scorer_main_rows [of env rs r]
  show ?thesis by blast
qed

lemma demo_headline_scores:
  "score_with_finbert demo_sentiment_model [''Up'', ''Apple holds annual event'']
     = Inr ([6 / 10, 4 / 100], [3 / 10, 30 / 100], [1 / 10, 66 / 100])"
  by (simp add: score_with_finbert_def chunked_def BATCH_SIZE_def chunks_from.simps
        demo_sentiment_model_def column_def)

lemma demo_scorer_run: "scorer_main demo_scorer_env = returned [] [Csv demo_scored_rows]"
  by (simp add: scorer_main_def demo_scorer_env_def demo_news_def find_headline_column_def
     HEADLINE_COL_CANDIDATES_def add_date_from_timestamp_def demo_to_datetime_utc_def
     List.map_filter_def demo_headline_scores add_sentiment_columns_def finbert_score_def
     finbert_label_def demo_scored_rows_def zero_pad2_def zero_pad4_def digit_char_def)

theorem score_and_label_witness:
  "(0::real) \<le> 6 / 10 \<and> (6::real) / 10 \<le> 1 \<and> (0::real) \<le> 3 / 10 \<and> (3::real) / 10 \<le> 1
   \<and> written (scorer_main demo_scorer_env) = [Csv demo_scored_rows]
   \<and> score_with_finbert demo_sentiment_model [''Up'', ''Apple holds annual event'']
       = Inr ([6 / 10, 4 / 100], [3 / 10, 30 / 100], [1 / 10, 66 / 100])
   \<and> finbert_score (6 / 10) (3 / 10) = 3 / 10
   \<and> finbert_score (6 / 10) (3 / 10) \<le> 1 \<and> - 1 \<le> finbert_score (6 / 10) (3 / 10)
   \<and> finbert_label (3 / 10) = ''positive''
   \<and> map FINBERT_POS demo_scored_rows = [6 / 10, 4 / 100]
   \<and> map FINBERT_NEG demo_scored_rows = [3 / 10, 30 / 100]
   \<and> FINBERT_SCORE (demo_scored_rows ! 0) = 6 / 10 - 3 / 10
   \<and> FINBERT_LABEL (demo_scored_rows ! 0) = finbert_label (6 / 10 - 3 / 10)
   \<and> FINBERT_SCORE (demo_scored_rows ! 1) = 4 / 100 - 30 / 100
   \<and> FINBERT_LABEL (demo_scored_rows ! 1) = finbert_label (4 / 100 - 30 / 100)
   \<and> FINBERT_LABEL (demo_scored_rows ! 1) = ''negative''"
proof -
  have w: "written (scorer_main demo_scorer_env) = [Csv demo_scored_rows]"
    by (simp add: demo_scorer_run returned_def)
  have h: "hd demo_scored_rows \<in> set demo_scored_rows"
    by (simp add: demo_scored_rows_def)
  note inst = score_and_label [where p = "6 / 10" and n = "3 / 10" and x = "3 / 10"
      and env = demo_scorer_env and rs = demo_scored_rows and r = "hd demo_scored_rows"]
  from inst have base: "finbert_score (6 / 10) (3 / 10) = 3 / 10
     \<and> finbert_score (6 / 10) (3 / 10) \<le> 1 \<and> - 1 \<le> finbert_score (6 / 10) (3 / 10)
     \<and> finbert_label (3 / 10) = ''positive''"
    by simp
  from inst w obtain df0 col ws dated m pos neg neu where
    a: "INPUT_CSV demo_scorer_env = Some df0"
       "find_headline_column (columns df0) = Inr col"
       "add_date_from_timestamp (to_datetime_utc demo_scorer_env)
               (df0\<lparr>rows := filter (\<lambda>r. r col \<noteq> None) (rows df0)\<rparr>) = Inr (ws, dated)"
       "load_finbert demo_scorer_env = Inr m"
       "score_with_finbert m
               (map (\<lambda>(r, d). case r col of Some h \<Rightarrow> h | None \<Rightarrow> ''nan'') dated)
             = Inr (pos, neg, neu)" and
    rows: "\<forall>k<length demo_scored_rows.
               cells (demo_scored_rows ! k) = fst (dated ! k)
               \<and> DATE (demo_scored_rows ! k) = snd (dated ! k)
               \<and> FINBERT_POS (demo_scored_rows ! k) = pos ! k
               \<and> FINBERT_NEG (demo_scored_rows ! k) = neg ! k
               \<and> FINBERT_NEU (demo_scored_rows ! k) = neu ! k
               \<and> FINBERT_SCORE (demo_scored_rows ! k) = pos ! k - neg ! k
               \<and> FINBERT_LABEL (demo_scored_rows ! k) = finbert_label (pos ! k - neg ! k)"
    by blast
  from a(1) have df0: "df0 = demo_news" by (simp add: demo_scorer_env_def)
  from a(2) have col: "col = ''headline''"
    by (simp add: df0 demo_news_def find_headline_column_def HEADLINE_COL_CANDIDATES_def)
  from a(4) have m: "m = demo_sentiment_model" by (simp add: demo_scorer_env_def)
  from a(3) have "map (\<lambda>(r, d). case r col of Some h \<Rightarrow> h | None \<Rightarrow> ''nan'') dated
                    = [''Up'', ''Apple holds annual event'']"
    by (auto simp: df0 col demo_news_def demo_scorer_env_def add_date_from_timestamp_def
          demo_to_datetime_utc_def List.map_filter_def Let_def)
  with a(5) m demo_headline_scores
  have p: "pos = [6 / 10, 4 / 100]" and n: "neg = [3 / 10, 30 / 100]" by simp_all
  have l: "length demo_scored_rows = 2" by (simp add: demo_scored_rows_def)
  from rows [rule_format, of 0] rows [rule_format, of 1] l p n
  have r: "FINBERT_SCORE (demo_scored_rows ! 0) = 6 / 10 - 3 / 10
     \<and> FINBERT_LABEL (demo_scored_rows ! 0) = finbert_label (6 / 10 - 3 / 10)
     \<and> FINBERT_SCORE (demo_scored_rows ! 1) = 4 / 100 - 30 / 100
     \<and> FINBERT_LABEL (demo_scored_rows ! 1) = finbert_label (4 / 100 - 30 / 100)"
    by simp
  have c: "map FINBERT_POS demo_scored_rows = [6 / 10, 4 / 100]
     \<and> map FINBERT_NEG demo_scored_rows = [3 / 10, 30 / 100]
     \<and> FINBERT_LABEL (demo_scored_rows ! 1) = ''negative''"
    by (simp add: demo_scored_rows_def)
  have q: "(0::real) \<le> 6 / 10 \<and> (6::real) / 10 \<le> 1 \<and> (0::real) \<le> 3 / 10 \<and> (3::real) / 10 \<le> 1"
    by simp
  from q w demo_headline_scores base r c show ?thesis by blast
qed

section \<open>Missing columns\<close>

lemma first_present_None: "first_present cands cols = None \<longleftrightarrow> (\<forall>c\<in>set cands. c \<notin> set cols)"
  by (induction cands) auto

lemma find_headline_column_Inl:
  "(\<exists>e. find_headline_column cols = Inl e) \<longleftrightarrow> (\<forall>c\<in>set HEADLINE_COL_CANDIDATES. c \<notin> set cols)"
  using first_present_None [of HEADLINE_COL_CANDIDATES cols]
  by (auto simp: find_headline_column_def split: option.splits)

lemma scorer_main_raised_written: "raised (scorer_main env) \<noteq> None \<Longrightarrow> written (scorer_main env) = []"
  by (auto simp: scorer_main_def aborted_def returned_def Let_def
           split: option.splits sum.splits if_splits prod.splits)

lemma panel_main_raised_written: "raised (panel_main env) \<noteq> None \<Longrightarrow> written (panel_main env) = []"
  by (auto simp: panel_main_def aborted_def returned_def Let_def
           split: option.splits sum.splits if_splits prod.splits)

lemma load_news_DATE:
  "load_news to_dt (Some df) = Inl (KeyError ''FinBERT file must contain DATE column.'')
     \<longleftrightarrow> ''DATE'' \<notin> set (sf_columns df)"
  by (simp add: load_news_def Let_def)

text \<open>
  Claim C8. \<open>find_headline_column\<close> raises exactly when none of the accepted column names
  is in the header, and then the scorer ends with that error and has written nothing.
  \<open>load_news\<close> raises its \<open>DATE\<close> error exactly when the header has no \<open>DATE\<close>, and then the
  panel builder ends with that error and has written nothing. No run of either script that
  ends with an error has written a file.
\<close>

theorem missing_column_aborts_before_output:
  "((\<exists>e. find_headline_column cols = Inl e) \<longleftrightarrow> (\<forall>c\<in>set HEADLINE_COL_CANDIDATES. c \<notin> set cols))
   \<and> (INPUT_CSV env = Some df \<and> (\<forall>c\<in>set HEADLINE_COL_CANDIDATES. c \<notin> set (columns df)) \<longrightarrow>
        raised (scorer_main env) = Some (HeadlineKeyError HEADLINE_COL_CANDIDATES (columns df))
        \<and> written (scorer_main env) = [])
   \<and> (load_news to_dt (Some nf) = Inl (KeyError ''FinBERT file must contain DATE column.'')
        \<longleftrightarrow> ''DATE'' \<notin> set (sf_columns nf))
   \<and> (NEWS_FILE penv = Some nf \<and> ''DATE'' \<notin> set (sf_columns nf) \<longrightarrow>
        raised (panel_main penv) = Some (KeyError ''FinBERT file must contain DATE column.'')
        \<and> written (panel_main penv) = [])
   \<and> (raised (scorer_main env) \<noteq> None \<longrightarrow> written (scorer_main env) = [])
   \<and> (raised (panel_main penv) \<noteq> None \<longrightarrow> written (panel_main penv) = [])"
proof -
  have a: "INPUT_CSV env = Some df \<and> (\<forall>c\<in>set HEADLINE_COL_CANDIDATES. c \<notin> set (columns df)) \<longrightarrow>
        raised (scorer_main env) = Some (HeadlineKeyError HEADLINE_COL_CANDIDATES (columns df))
        \<and> written (scorer_main env) = []"
    using first_present_None [of HEADLINE_COL_CANDIDATES "columns df"]
    by (auto simp: scorer_main_def find_headline_column_def aborted_def)
  have b: "NEWS_FILE penv = Some nf \<and> ''DATE'' \<notin> set (sf_columns nf) \<longrightarrow>
        raised (panel_main penv) = Some (KeyError ''FinBERT file must contain DATE column.'')
        \<and> written (panel_main penv) = []"
    by (auto simp: panel_main_def load_news_def aborted_def)
  show ?thesis
    using a b find_headline_column_Inl [of cols] load_news_DATE [of to_dt nf]
      scorer_main_raised_written [of env] panel_main_raised_written [of penv]
    by blast
qed

theorem missing_column_aborts_before_output_witness:
  "filter (\<lambda>c. c \<in> set (columns demo_news_no_headline)) HEADLINE_COL_CANDIDATES = []
   \<and> ''DATE'' \<notin> set (sf_columns demo_scored_no_date)
   \<and> (\<exists>e. find_headline_column (columns demo_news_no_headline) = Inl e)
   \<and> raised (scorer_main \<lparr>INPUT_CSV = Some demo_news_no_headline,
         to_datetime_utc = demo_to_datetime_utc, load_finbert = Inr demo_model\<rparr>)
       = Some (HeadlineKeyError HEADLINE_COL_CANDIDATES [''TIMESTAMP'', ''text''])
   \<and> written (scorer_main \<lparr>INPUT_CSV = Some demo_news_no_headline,
         to_datetime_utc = demo_to_datetime_utc, load_finbert = Inr demo_model\<rparr>) = []
   \<and> raised (panel_main \<lparr>NEWS_FILE = Some demo_scored_no_date, PRICES_FILE = None,
         to_datetime = pd_to_datetime\<rparr>)
       = Some (KeyError ''FinBERT file must contain DATE column.'')
   \<and> written (panel_main \<lparr>NEWS_FILE = Some demo_scored_no_date, PRICES_FILE = None,
         to_datetime = pd_to_datetime\<rparr>) = []"
proof -
  have h1: "\<forall>c\<in>set HEADLINE_COL_CANDIDATES. c \<notin> set (columns demo_news_no_headline)"
    by (simp add: HEADLINE_COL_CANDIDATES_def demo_news_no_headline_def)
  have h2: "''DATE'' \<notin> set (sf_columns demo_scored_no_date)"
    by (simp add: demo_scored_no_date_def)
  have c: "columns demo_news_no_headline = [''TIMESTAMP'', ''text'']"
    by (simp add: demo_news_no_headline_def)
  from missing_column_aborts_before_output
    [where cols = "columns demo_news_no_headline" and df = demo_news_no_headline
       and env = "\<lparr>INPUT_CSV = Some demo_news_no_headline,
         to_datetime_utc = demo_to_datetime_utc, load_finbert = Inr demo_model\<rparr>"
       and nf = demo_scored_no_date and to_dt = pd_to_datetime
       and penv = "\<lparr>NEWS_FILE = Some demo_scored_no_date, PRICES_FILE = None,
         to_datetime = pd_to_datetime\<rparr>"] h1 h2 c
  have "(\<exists>e. find_headline_column (columns demo_news_no_headline) = Inl e)
   \<and> raised (scorer_main \<lparr>INPUT_CSV = Some demo_news_no_headline,
         to_datetime_utc = demo_to_datetime_utc, load_finbert = Inr demo_model\<rparr>)
       = Some (HeadlineKeyError HEADLINE_COL_CANDIDATES [''TIMESTAMP'', ''text''])
   \<and> written (scorer_main \<lparr>INPUT_CSV = Some demo_news_no_headline,
         to_datetime_utc = demo_to_datetime_utc, load_finbert = Inr demo_model\<rparr>) = []
   \<and> raised (panel_main \<lparr>NEWS_FILE = Some demo_scored_no_date, PRICES_FILE = None,
         to_datetime = pd_to_datetime\<rparr>)
       = Some (KeyError ''FinBERT file must contain DATE column.'')
   \<and> written (panel_main \<lparr>NEWS_FILE = Some demo_scored_no_date, PRICES_FILE = None,
         to_datetime = pd_to_datetime\<rparr>) = []"
    by simp
  moreover have "filter (\<lambda>c. c \<in> set (columns demo_news_no_headline)) HEADLINE_COL_CANDIDATES = []"
    by (simp add: HEADLINE_COL_CANDIDATES_def demo_news_no_headline_def)
  ultimately show ?thesis using h2 by blast
qed

section \<open>Empty input after filtering\<close>

lemma filter_sort_out_of_range:
  "\<forall>r\<in>set rs. \<forall>d. pc_DATE r = Date d \<longrightarrow> \<not> in_range d \<Longrightarrow>
     filter_sort (zip (map cell_date (map pc_DATE rs)) rs) = []"
proof -
  assume a: "\<forall>r\<in>set rs. \<forall>d. pc_DATE r = Date d \<longrightarrow> \<not> in_range d"
  have "List.map_filter
          (\<lambda>(d, r). case d of None \<Rightarrow> None | Some d' \<Rightarrow> if in_range d' then Some (d', r) else None)
          (zip (map cell_date (map pc_DATE rs)) rs) = []"
    using a
  proof (induction rs)
    case Nil
    then show ?case by (simp add: List.map_filter_simps)
  next
    case (Cons r rs)
    then show ?case by (cases "pc_DATE r") (auto simp: List.map_filter_simps)
  qed
  then show ?thesis by (simp add: filter_sort_def)
qed

text \<open>
  Claim C7, as the code has it. When every headline cell is missing, the scorer returns
  without an error, prints its warning and writes no file. When no panel row lies in the
  date range, the lead-lag script does not return: it raises a \<open>ValueError\<close> that names the
  cause, and writes no file.
\<close>

theorem empty_input_after_filter:
  "(INPUT_CSV env = Some df \<and> find_headline_column (columns df) = Inr col
      \<and> (\<forall>r\<in>set (rows df). r col = None) \<longrightarrow>
        raised (scorer_main env) = None \<and> written (scorer_main env) = []
        \<and> warned (scorer_main env) = [''No headlines found after dropping empty rows.''])
   \<and> (''DATE'' \<in> set (pn_columns pf) \<and> ''RETURN'' \<in> set (pn_columns pf)
      \<and> ''DAILY_SENTIMENT'' \<in> set (pn_columns pf)
      \<and> Unparseable \<notin> set (map pc_DATE (pn_rows pf))
      \<and> (\<forall>r\<in>set (pn_rows pf). \<forall>d. pc_DATE r = Date d \<longrightarrow> \<not> in_range d) \<longrightarrow>
        raised (lead_lag_main (Some pf))
          = Some (ValueError ''No rows after date filtering - check START_DATE / END_DATE.'')
        \<and> written (lead_lag_main (Some pf)) = [])"
proof -
  have one: "raised (scorer_main env) = None \<and> written (scorer_main env) = []
        \<and> warned (scorer_main env) = [''No headlines found after dropping empty rows.'']"
    if a: "INPUT_CSV env = Some df \<and> find_headline_column (columns df) = Inr col
      \<and> (\<forall>r\<in>set (rows df). r col = None)"
  proof -
    from a have "filter (\<lambda>r. r col \<noteq> None) (rows df) = []" by (simp add: filter_empty_conv)
    with a have "scorer_main env = returned [''No headlines found after dropping empty rows.''] []"
      by (simp add: scorer_main_def)
    then show ?thesis by (simp add: returned_def)
  qed
  have two: "raised (lead_lag_main (Some pf))
          = Some (ValueError ''No rows after date filtering - check START_DATE / END_DATE.'')
        \<and> written (lead_lag_main (Some pf)) = []"
    if a: "''DATE'' \<in> set (pn_columns pf) \<and> ''RETURN'' \<in> set (pn_columns pf)
      \<and> ''DAILY_SENTIMENT'' \<in> set (pn_columns pf)
      \<and> Unparseable \<notin> set (map pc_DATE (pn_rows pf))
      \<and> (\<forall>r\<in>set (pn_rows pf). \<forall>d. pc_DATE r = Date d \<longrightarrow> \<not> in_range d)"
  proof -
    from a have "filter_sort (zip (map cell_date (map pc_DATE (pn_rows pf))) (pn_rows pf)) = []"
      by (intro filter_sort_out_of_range) blast
    with a have "lead_lag_main (Some pf)
        = aborted [] (ValueError ''No rows after date filtering - check START_DATE / END_DATE.'')"
      by (simp add: lead_lag_main_def to_datetime_strict_def)
    then show ?thesis by (simp add: aborted_def)
  qed
  from one two show ?thesis by blast
qed

theorem empty_input_after_filter_witness:
  "INPUT_CSV \<lparr>INPUT_CSV = Some demo_news_all_empty, to_datetime_utc = demo_to_datetime_utc,
       load_finbert = Inr demo_model\<rparr> = Some demo_news_all_empty
   \<and> find_headline_column (columns demo_news_all_empty) = Inr ''Title''
   \<and> map (\<lambda>r. r ''Title'') (rows demo_news_all_empty) = [None, None]
   \<and> map pc_DATE (pn_rows demo_panel_out_of_range) = [Date (2025, 1, 2), Blank]
   \<and> \<not> in_range (2025, 1, 2)
   \<and> raised (scorer_main \<lparr>INPUT_CSV = Some demo_news_all_empty,
        to_datetime_utc = demo_to_datetime_utc, load_finbert = Inr demo_model\<rparr>) = None
   \<and> written (scorer_main \<lparr>INPUT_CSV = Some demo_news_all_empty,
        to_datetime_utc = demo_to_datetime_utc, load_finbert = Inr demo_model\<rparr>) = []
   \<and> warned (scorer_main \<lparr>INPUT_CSV = Some demo_news_all_empty,
        to_datetime_utc = demo_to_datetime_utc, load_finbert = Inr demo_model\<rparr>)
       = [''No headlines found after dropping empty rows.'']
   \<and> raised (lead_lag_main (Some demo_panel_out_of_range))
       = Some (ValueError ''No rows after date filtering - check START_DATE / END_DATE.'')
   \<and> written (lead_lag_main (Some demo_panel_out_of_range)) = []"
proof -
  have h1: "find_headline_column (columns demo_news_all_empty) = Inr ''Title''"
    by (simp add: find_headline_column_def HEADLINE_COL_CANDIDATES_def demo_news_all_empty_def)
  have h2: "\<forall>r\<in>set (rows demo_news_all_empty). r ''Title'' = None"
    by (simp add: demo_news_all_empty_def)
  have h3: "''DATE'' \<in> set (pn_columns demo_panel_out_of_range)
      \<and> ''RETURN'' \<in> set (pn_columns demo_panel_out_of_range)
      \<and> ''DAILY_SENTIMENT'' \<in> set (pn_columns demo_panel_out_of_range)
      \<and> Unparseable \<notin> set (map pc_DATE (pn_rows demo_panel_out_of_range))"
    by (simp add: demo_panel_out_of_range_def)
  have h4: "\<forall>r\<in>set (pn_rows demo_panel_out_of_range). \<forall>d. pc_DATE r = Date d \<longrightarrow> \<not> in_range d"
    by (simp add: demo_panel_out_of_range_def in_range_def START_DATE_def END_DATE_def)
  from empty_input_after_filter
    [where env = "\<lparr>INPUT_CSV = Some demo_news_all_empty, to_datetime_utc = demo_to_datetime_utc,
                   load_finbert = Inr demo_model\<rparr>"
       and df = demo_news_all_empty and col = "''Title''" and pf = demo_panel_out_of_range]
    h1 h2 h3 h4
  have "raised (scorer_main \<lparr>INPUT_CSV = Some demo_news_all_empty,
        to_datetime_utc = demo_to_datetime_utc, load_finbert = Inr demo_model\<rparr>) = None
   \<and> written (scorer_main \<lparr>INPUT_CSV = Some demo_news_all_empty,
        to_datetime_utc = demo_to_datetime_utc, load_finbert = Inr demo_model\<rparr>) = []
   \<and> warned (scorer_main \<lparr>INPUT_CSV = Some demo_news_all_empty,
        to_datetime_utc = demo_to_datetime_utc, load_finbert = Inr demo_model\<rparr>)
       = [''No headlines found after dropping empty rows.'']
   \<and> raised (lead_lag_main (Some demo_panel_out_of_range))
       = Some (ValueError ''No rows after date filtering - check START_DATE / END_DATE.'')
   \<and> written (lead_lag_main (Some demo_panel_out_of_range)) = []"
    by simp
  moreover have "map (\<lambda>r. r ''Title'') (rows demo_news_all_empty) = [None, None]
     \<and> map pc_DATE (pn_rows demo_panel_out_of_range) = [Date (2025, 1, 2), Blank]
     \<and> \<not> in_range (2025, 1, 2)"
    by (simp add: demo_news_all_empty_def demo_panel_out_of_range_def in_range_def
          START_DATE_def END_DATE_def)
  ultimately show ?thesis using h1 by simp
qed

text \<open>
  Claim C7 as stated fails on the lead-lag script: a panel without a row in the date range
  ends the run with an exception.
\<close>

theorem lead_lag_raises_on_empty_range:
  "raised (lead_lag_main (Some demo_panel_out_of_range))
     = Some (ValueError ''No rows after date filtering - check START_DATE / END_DATE.'')"
  by (simp add: lead_lag_main_def demo_panel_out_of_range_def to_datetime_strict_def
       filter_sort_def in_range_def START_DATE_def END_DATE_def aborted_def)


section \<open>The panel join\<close>

lemma set_merge_inner:
  "set (merge_inner prices news)
     = {(p, n). p \<in> set prices \<and> n \<in> set news \<and> pr_DATE p = Some (d_DATE n)}"
  by (auto simp: merge_inner_def)

text \<open>
  Claim C2. A date appears in the merged panel exactly when a price row and a daily
  sentiment row both carry it; every panel row is a price row and a sentiment row of the
  same date; and the file the panel builder writes is this merge of what \<open>load_prices\<close>
  and \<open>load_news\<close> return.
\<close>

theorem panel_is_inner_join:
  "((\<exists>row\<in>set (merge_inner prices news). pr_DATE (fst row) = Some d)
      \<longleftrightarrow> (\<exists>p\<in>set prices. pr_DATE p = Some d) \<and> (\<exists>n\<in>set news. d_DATE n = d))
   \<and> (\<forall>row\<in>set (merge_inner prices news).
         fst row \<in> set prices \<and> snd row \<in> set news \<and> pr_DATE (fst row) = Some (d_DATE (snd row)))
   \<and> (written (panel_main env) = [Csv panel] \<longrightarrow>
        (\<exists>prices news.
           load_prices (to_datetime env) (PRICES_FILE env) = Inr prices
           \<and> load_news (to_datetime env) (NEWS_FILE env) = Inr news
           \<and> panel = merge_inner prices news))"
proof -
  have a: "(\<exists>row\<in>set (merge_inner prices news). pr_DATE (fst row) = Some d)
      \<longleftrightarrow> (\<exists>p\<in>set prices. pr_DATE p = Some d) \<and> (\<exists>n\<in>set news. d_DATE n = d)"
    unfolding set_merge_inner by force
  have b: "\<forall>row\<in>set (merge_inner prices news).
         fst row \<in> set prices \<and> snd row \<in> set news \<and> pr_DATE (fst row) = Some (d_DATE (snd row))"
    unfolding set_merge_inner by auto
  have c: "written (panel_main env) = [Csv panel] \<longrightarrow>
        (\<exists>prices news.
           load_prices (to_datetime env) (PRICES_FILE env) = Inr prices
           \<and> load_news (to_datetime env) (NEWS_FILE env) = Inr news
           \<and> panel = merge_inner prices news)"
    by (auto simp: panel_main_def aborted_def returned_def split: sum.splits)
  from a b c show ?thesis by blast
qed

lemma demo_day_aggregate: "load_news demo_to_datetime (Some demo_scored_day) = Inr demo_daily"
  by (simp add: load_news_def demo_scored_day_def demo_to_datetime_def sentiment_cols_def
        group_keys_def List.map_filter_simps aggregate_def group_of_def mean_skipna_def
        count_valid_def label_share_def finbert_label_def demo_daily_def)

lemma demo_load_prices: "load_prices demo_to_datetime (Some demo_prices) = Inr demo_price_rows"
  by (simp add: load_prices_def demo_prices_def demo_to_datetime_def rename_column_def
        sort_values_DATE_def List.map_filter_simps demo_price_rows_def)

lemma demo_panel_run:
  "panel_main demo_panel_env = returned [] [Csv (merge_inner demo_price_rows demo_daily)]"
  by (simp add: panel_main_def demo_panel_env_def demo_load_prices demo_day_aggregate)

lemma demo_merge: "merge_inner demo_price_rows demo_daily = [(demo_price_rows ! 1, demo_daily ! 0)]"
  by (simp add: merge_inner_def demo_price_rows_def demo_daily_def)

theorem panel_is_inner_join_witness:
  "written (panel_main demo_panel_env) = [Csv (merge_inner demo_price_rows demo_daily)]
   \<and> merge_inner demo_price_rows demo_daily = [(demo_price_rows ! 1, demo_daily ! 0)]
   \<and> (\<exists>row\<in>set (merge_inner demo_price_rows demo_daily). pr_DATE (fst row) = Some (2025, 8, 13))
   \<and> \<not> (\<exists>row\<in>set (merge_inner demo_price_rows demo_daily). pr_DATE (fst row) = Some (2025, 8, 14))
   \<and> (\<exists>prices news.
         load_prices (to_datetime demo_panel_env) (PRICES_FILE demo_panel_env) = Inr prices
         \<and> load_news (to_datetime demo_panel_env) (NEWS_FILE demo_panel_env) = Inr news
         \<and> merge_inner demo_price_rows demo_daily = merge_inner prices news)"
proof -
  have w: "written (panel_main demo_panel_env) = [Csv (merge_inner demo_price_rows demo_daily)]"
    by (simp add: demo_panel_run returned_def)
  have in13: "(\<exists>p\<in>set demo_price_rows. pr_DATE p = Some (2025, 8, 13))
              \<and> (\<exists>n\<in>set demo_daily. d_DATE n = (2025, 8, 13))"
    by (simp add: demo_price_rows_def demo_daily_def)
  have out14: "\<not> (\<exists>n\<in>set demo_daily. d_DATE n = (2025, 8, 14))"
    by (simp add: demo_daily_def)
  from panel_is_inner_join [where prices = demo_price_rows and news = demo_daily
      and d = "(2025, 8, 13)" and env = demo_panel_env
      and panel = "merge_inner demo_price_rows demo_daily"] w in13
  have a: "(\<exists>row\<in>set (merge_inner demo_price_rows demo_daily). pr_DATE (fst row) = Some (2025, 8, 13))
     \<and> (\<exists>prices news.
         load_prices (to_datetime demo_panel_env) (PRICES_FILE demo_panel_env) = Inr prices
         \<and> load_news (to_datetime demo_panel_env) (NEWS_FILE demo_panel_env) = Inr news
         \<and> merge_inner demo_price_rows demo_daily = merge_inner prices news)"
    by blast
  from panel_is_inner_join [where prices = demo_price_rows and news = demo_daily
      and d = "(2025, 8, 14)"] out14
  have b: "\<not> (\<exists>row\<in>set (merge_inner demo_price_rows demo_daily). pr_DATE (fst row) = Some (2025, 8, 14))"
    by blast
  from w a b demo_merge show ?thesis by blast
qed

section \<open>Daily aggregation\<close>












section \<open>Daily return\<close>











lemma lead_lag_table_simps:
  "lead_lag_table [] = []"
  "lead_lag_table [x] = []"
  "lead_lag_table (x # y # zs) =
     (case pc_DAILY_SENTIMENT (snd x) of
        None \<Rightarrow> lead_lag_table (y # zs)
      | Some s \<Rightarrow>
          if pc_RETURN (snd y) = NaN then lead_lag_table (y # zs)
          else \<lparr>ll_DATE = fst x, ll_DAILY_SENTIMENT = s, ll_RETURN_TOMORROW = pc_RETURN (snd y)\<rparr>
               # lead_lag_table (y # zs))"
  by (cases x; simp add: lead_lag_table_def List.map_filter_simps split: option.splits)+

lemma demo_panel_frame_eq:
  "to_datetime_strict (map pc_DATE (pn_rows demo_panel)) = Inr (map cell_date (map pc_DATE (pn_rows demo_panel)))
   \<and> filter_sort (zip (map cell_date (map pc_DATE (pn_rows demo_panel))) (pn_rows demo_panel)) = demo_panel_frame"
  by (simp add: to_datetime_strict_def demo_panel_def filter_sort_def List.map_filter_simps
        in_range_def START_DATE_def END_DATE_def demo_panel_frame_def)

lemma demo_lead_lag_eq: "lead_lag_table demo_panel_frame = demo_lead_lag"
  by (simp add: demo_panel_frame_def lead_lag_table_simps demo_lead_lag_def)




section \<open>The lead-lag table\<close>

lemma lead_lag_table_pairs:
  "\<forall>k. Suc k < length df \<longrightarrow>
         pc_DAILY_SENTIMENT (snd (df ! k)) \<noteq> None \<and> pc_RETURN (snd (df ! Suc k)) \<noteq> NaN \<Longrightarrow>
   length (lead_lag_table df) = length df - 1
   \<and> (\<forall>k. Suc k < length df \<longrightarrow>
         ll_DATE (lead_lag_table df ! k) = fst (df ! k)
         \<and> Some (ll_DAILY_SENTIMENT (lead_lag_table df ! k)) = pc_DAILY_SENTIMENT (snd (df ! k))
         \<and> ll_RETURN_TOMORROW (lead_lag_table df ! k) = pc_RETURN (snd (df ! Suc k)))"
proof (induction df rule: induct_list012)
  case 1
  then show ?case by (simp add: lead_lag_table_simps)
next
  case (2 x)
  then show ?case by (simp add: lead_lag_table_simps)
next
  case (3 x y zs)
  from 3(3) have h0: "pc_DAILY_SENTIMENT (snd x) \<noteq> None \<and> pc_RETURN (snd y) \<noteq> NaN"
    by (auto dest: spec [of _ 0])
  have "\<forall>k. Suc k < length (y # zs) \<longrightarrow>
         pc_DAILY_SENTIMENT (snd ((y # zs) ! k)) \<noteq> None \<and> pc_RETURN (snd ((y # zs) ! Suc k)) \<noteq> NaN"
  proof (intro allI impI)
    fix k assume "Suc k < length (y # zs)"
    with 3(3) [rule_format, of "Suc k"]
    show "pc_DAILY_SENTIMENT (snd ((y # zs) ! k)) \<noteq> None \<and> pc_RETURN (snd ((y # zs) ! Suc k)) \<noteq> NaN"
      by simp
  qed
  from 3(2) [OF this] have ih:
    "length (lead_lag_table (y # zs)) = length zs"
    "\<And>k. Suc k < length (y # zs) \<Longrightarrow>
         ll_DATE (lead_lag_table (y # zs) ! k) = fst ((y # zs) ! k)
         \<and> Some (ll_DAILY_SENTIMENT (lead_lag_table (y # zs) ! k)) = pc_DAILY_SENTIMENT (snd ((y # zs) ! k))
         \<and> ll_RETURN_TOMORROW (lead_lag_table (y # zs) ! k) = pc_RETURN (snd ((y # zs) ! Suc k))"
    by simp_all
  from h0 obtain s where s: "pc_DAILY_SENTIMENT (snd x) = Some s" by auto
  with h0 have unfold: "lead_lag_table (x # y # zs)
      = \<lparr>ll_DATE = fst x, ll_DAILY_SENTIMENT = s, ll_RETURN_TOMORROW = pc_RETURN (snd y)\<rparr>
        # lead_lag_table (y # zs)"
    by (simp add: lead_lag_table_simps)
  show ?case
  proof (intro conjI allI impI)
    show "length (lead_lag_table (x # y # zs)) = length (x # y # zs) - 1"
      unfolding unfold using ih(1) by simp
  next
    fix k assume k: "Suc k < length (x # y # zs)"
    show "ll_DATE (lead_lag_table (x # y # zs) ! k) = fst ((x # y # zs) ! k)"
      unfolding unfold using ih(2) [of "k - 1"] k by (cases k) simp_all
    show "Some (ll_DAILY_SENTIMENT (lead_lag_table (x # y # zs) ! k))
            = pc_DAILY_SENTIMENT (snd ((x # y # zs) ! k))"
      unfolding unfold using ih(2) [of "k - 1"] k s by (cases k) simp_all
    show "ll_RETURN_TOMORROW (lead_lag_table (x # y # zs) ! k) = pc_RETURN (snd ((x # y # zs) ! Suc k))"
      unfolding unfold using ih(2) [of "k - 1"] k by (cases k) simp_all
  qed
qed

lemma set_map_filter: "set (List.map_filter f xs) = {y. \<exists>x\<in>set xs. f x = Some y}"
  by (induction xs) (auto simp: List.map_filter_simps split: option.splits)

lemma set_filter_sort:
  "set (filter_sort xs) = {(d, r). (Some d, r) \<in> set xs \<and> in_range d}"
  by (force simp: filter_sort_def set_map_filter split: option.splits if_splits)

lemma sorted_filter_sort: "sorted (map fst (filter_sort xs))"
  unfolding filter_sort_def by (rule sorted_sort_key)

text \<open>
  Claim C5, as the code has it. Let the rows of the panel in the date range, in date order,
  have distinct dates \<open>D\<^sub>1 < ... < D\<^sub>n\<close>, a sentiment in each of the rows \<open>D\<^sub>1 ... D\<^sub>n\<^sub>-\<^sub>1\<close>
  and a return in each of the rows \<open>D\<^sub>2 ... D\<^sub>n\<close>. Then the lead-lag table has \<open>n - 1\<close> rows,
  its k-th row pairs the date and sentiment of \<open>D\<^sub>k\<close> with the return of \<open>D\<^sub>k\<^sub>+\<^sub>1\<close>, and only
  the row \<open>D\<^sub>n\<close> is dropped; for \<open>n \<ge> 2\<close> the script writes this table.
\<close>

theorem lead_lag_pairs:
  "''DATE'' \<in> set (pn_columns pf) \<and> ''RETURN'' \<in> set (pn_columns pf)
   \<and> ''DAILY_SENTIMENT'' \<in> set (pn_columns pf)
   \<and> to_datetime_strict (map pc_DATE (pn_rows pf)) = Inr dates
   \<and> df = filter_sort (zip dates (pn_rows pf))
   \<and> distinct (map fst df)
   \<and> (\<forall>k. Suc k < length df \<longrightarrow>
         pc_DAILY_SENTIMENT (snd (df ! k)) \<noteq> None \<and> pc_RETURN (snd (df ! Suc k)) \<noteq> NaN)
   \<longrightarrow>
     sorted (map fst df)
     \<and> set df = {(d, r). (Some d, r) \<in> set (zip dates (pn_rows pf)) \<and> in_range d}
     \<and> length (lead_lag_table df) = length df - 1
     \<and> (\<forall>k. Suc k < length df \<longrightarrow>
           ll_DATE (lead_lag_table df ! k) = fst (df ! k)
           \<and> Some (ll_DAILY_SENTIMENT (lead_lag_table df ! k)) = pc_DAILY_SENTIMENT (snd (df ! k))
           \<and> ll_RETURN_TOMORROW (lead_lag_table df ! k) = pc_RETURN (snd (df ! Suc k)))
     \<and> (2 \<le> length df \<longrightarrow>
           raised (lead_lag_main (Some pf)) = None
           \<and> written (lead_lag_main (Some pf)) = [Csv (lead_lag_table df), Plot (lead_lag_table df)])"
proof (rule impI)
  assume a: "''DATE'' \<in> set (pn_columns pf) \<and> ''RETURN'' \<in> set (pn_columns pf)
   \<and> ''DAILY_SENTIMENT'' \<in> set (pn_columns pf)
   \<and> to_datetime_strict (map pc_DATE (pn_rows pf)) = Inr dates
   \<and> df = filter_sort (zip dates (pn_rows pf))
   \<and> distinct (map fst df)
   \<and> (\<forall>k. Suc k < length df \<longrightarrow>
         pc_DAILY_SENTIMENT (snd (df ! k)) \<noteq> None \<and> pc_RETURN (snd (df ! Suc k)) \<noteq> NaN)"
  then have df: "df = filter_sort (zip dates (pn_rows pf))" by blast
  from a have pres: "\<forall>k. Suc k < length df \<longrightarrow>
         pc_DAILY_SENTIMENT (snd (df ! k)) \<noteq> None \<and> pc_RETURN (snd (df ! Suc k)) \<noteq> NaN" by blast
  note t = lead_lag_table_pairs [OF pres]
  have m: "raised (lead_lag_main (Some pf)) = None
           \<and> written (lead_lag_main (Some pf)) = [Csv (lead_lag_table df), Plot (lead_lag_table df)]"
    if two: "2 \<le> length df"
  proof -
    from two t have "length (lead_lag_table df) \<noteq> 0" by simp
    then have ne: "lead_lag_table df \<noteq> []" by simp
    from two have ne': "df \<noteq> []" by auto
    from a ne ne' show ?thesis
      by (simp add: lead_lag_main_def Let_def returned_def df [symmetric])
  qed
  from t m sorted_filter_sort [of "zip dates (pn_rows pf)"] set_filter_sort [of "zip dates (pn_rows pf)"]
  show "sorted (map fst df)
     \<and> set df = {(d, r). (Some d, r) \<in> set (zip dates (pn_rows pf)) \<and> in_range d}
     \<and> length (lead_lag_table df) = length df - 1
     \<and> (\<forall>k. Suc k < length df \<longrightarrow>
           ll_DATE (lead_lag_table df ! k) = fst (df ! k)
           \<and> Some (ll_DAILY_SENTIMENT (lead_lag_table df ! k)) = pc_DAILY_SENTIMENT (snd (df ! k))
           \<and> ll_RETURN_TOMORROW (lead_lag_table df ! k) = pc_RETURN (snd (df ! Suc k)))
     \<and> (2 \<le> length df \<longrightarrow>
           raised (lead_lag_main (Some pf)) = None
           \<and> written (lead_lag_main (Some pf)) = [Csv (lead_lag_table df), Plot (lead_lag_table df)])"
    unfolding df by blast
qed

theorem lead_lag_pairs_witness:
  "to_datetime_strict (map pc_DATE (pn_rows demo_panel))
      = Inr (map cell_date (map pc_DATE (pn_rows demo_panel)))
   \<and> demo_panel_frame
      = filter_sort (zip (map cell_date (map pc_DATE (pn_rows demo_panel))) (pn_rows demo_panel))
   \<and> distinct (map fst demo_panel_frame)
   \<and> (2::nat) \<le> length demo_panel_frame
   \<and> lead_lag_table demo_panel_frame = demo_lead_lag
   \<and> length (lead_lag_table demo_panel_frame) = length demo_panel_frame - 1
   \<and> ll_DATE (lead_lag_table demo_panel_frame ! 0) = fst (demo_panel_frame ! 0)
   \<and> ll_RETURN_TOMORROW (lead_lag_table demo_panel_frame ! 0) = pc_RETURN (snd (demo_panel_frame ! 1))
   \<and> raised (lead_lag_main (Some demo_panel)) = None
   \<and> written (lead_lag_main (Some demo_panel))
       = [Csv (lead_lag_table demo_panel_frame), Plot (lead_lag_table demo_panel_frame)]"
proof -
  have cols: "''DATE'' \<in> set (pn_columns demo_panel) \<and> ''RETURN'' \<in> set (pn_columns demo_panel)
      \<and> ''DAILY_SENTIMENT'' \<in> set (pn_columns demo_panel)"
    by (simp add: demo_panel_def)
  have dist: "distinct (map fst demo_panel_frame) \<and> (2::nat) \<le> length demo_panel_frame
      \<and> Suc 0 < length demo_panel_frame"
    by (simp add: demo_panel_frame_def)
  have pres: "\<forall>k. Suc k < length demo_panel_frame \<longrightarrow>
         pc_DAILY_SENTIMENT (snd (demo_panel_frame ! k)) \<noteq> None
         \<and> pc_RETURN (snd (demo_panel_frame ! Suc k)) \<noteq> NaN"
  proof (intro allI impI)
    fix k assume "Suc k < length demo_panel_frame"
    then have "k = 0 \<or> k = 1 \<or> k = 2" by (auto simp: demo_panel_frame_def)
    then show "pc_DAILY_SENTIMENT (snd (demo_panel_frame ! k)) \<noteq> None
         \<and> pc_RETURN (snd (demo_panel_frame ! Suc k)) \<noteq> NaN"
      by (elim disjE) (simp_all add: demo_panel_frame_def)
  qed
  from lead_lag_pairs [where pf = demo_panel
      and dates = "map cell_date (map pc_DATE (pn_rows demo_panel))" and df = demo_panel_frame]
    cols dist pres demo_panel_frame_eq
  have "length (lead_lag_table demo_panel_frame) = length demo_panel_frame - 1
     \<and> (\<forall>k. Suc k < length demo_panel_frame \<longrightarrow>
           ll_DATE (lead_lag_table demo_panel_frame ! k) = fst (demo_panel_frame ! k)
           \<and> Some (ll_DAILY_SENTIMENT (lead_lag_table demo_panel_frame ! k))
               = pc_DAILY_SENTIMENT (snd (demo_panel_frame ! k))
           \<and> ll_RETURN_TOMORROW (lead_lag_table demo_panel_frame ! k)
               = pc_RETURN (snd (demo_panel_frame ! Suc k)))
     \<and> raised (lead_lag_main (Some demo_panel)) = None
     \<and> written (lead_lag_main (Some demo_panel))
         = [Csv (lead_lag_table demo_panel_frame), Plot (lead_lag_table demo_panel_frame)]"
    by simp
  with dist demo_panel_frame_eq demo_lead_lag_eq show ?thesis by simp
qed

text \<open>
  Claim C5 as stated fails on a panel with a missing return in the middle: of the days
  11, 12 and 13 August 2025 with the returns 0.01, missing, 0.03, the table keeps only the
  row of 12 August; the row of 11 August is dropped although it is not the last.
\<close>

theorem lead_lag_drops_row_before_gap:
  "written (lead_lag_main (Some demo_panel_gap))
     = [Csv [\<lparr>ll_DATE = (2025, 8, 12), ll_DAILY_SENTIMENT = 2 / 10, ll_RETURN_TOMORROW = Fin (3 / 100)\<rparr>],
        Plot [\<lparr>ll_DATE = (2025, 8, 12), ll_DAILY_SENTIMENT = 2 / 10, ll_RETURN_TOMORROW = Fin (3 / 100)\<rparr>]]"
  by (simp add: lead_lag_main_def demo_panel_gap_def to_datetime_strict_def filter_sort_def
        List.map_filter_simps in_range_def START_DATE_def END_DATE_def lead_lag_table_simps
        returned_def Let_def)

section \<open>The date written by the scorer and read by the panel builder\<close>

text \<open>
  Claim C6 fails on the code. The scorer writes 5 September 2025 as \<open>05/09/2025\<close>, and
  \<open>pd.to_datetime\<close> without \<open>dayfirst=True\<close> reads this text as 9 May 2025, both when it
  infers one format for the column and when it parses each cell by itself; the daily row
  that \<open>load_news\<close> makes of the headline is dated 9 May 2025.
\<close>

theorem date_round_trip_breaks:
  "strftime_dmy (2025, 9, 5) = ''05/09/2025''
   \<and> pd_to_datetime [Some (strftime_dmy (2025, 9, 5))] = [Some (2025, 5, 9)]
   \<and> pd_to_datetime_elementwise [Some (strftime_dmy (2025, 9, 5))] = [Some (2025, 5, 9)]
   \<and> load_news pd_to_datetime (Some demo_scored_sep5)
       = Inr [\<lparr>d_DATE = (2025, 5, 9), DAILY_SENTIMENT = Some (2 / 10), NUM_HEADLINES = 1,
               POS_SHARE = Some 1, NEG_SHARE = Some 0\<rparr>]"
  by (simp add: zero_pad2_def zero_pad4_def digit_char_def pd_to_datetime_def
        pd_to_datetime_elementwise_def List.map_filter_simps guess_order_def parse_cell_def
        slash_fields_def digit_value_def days_in_month_def leap_year_def
        load_news_def demo_scored_sep5_def sentiment_cols_def group_keys_def aggregate_def
        group_of_def mean_skipna_def count_valid_def label_share_def finbert_label_def)

end
